theory Spec2Isabelle
  imports Complex_Main
begin

section \<open>Basic types\<close>

text \<open>
  A \<^verbatim>\<open>time.Time\<close> is an instant in nanoseconds, a \<^verbatim>\<open>time.Duration\<close> a number of
  nanoseconds, and the time since an instant is the exact difference. Every reading of
  the clock (\<^verbatim>\<open>time.Now()\<close>) is an argument of the operation that reads it: an operation
  that reads the clock several times has one argument for each reading, in the order of
  the readings.
\<close>

type_synonym time = int
type_synonym Duration = int

definition Second :: Duration where
  "Second = 1000000000"



text \<open>
  Go errors as values. The sentinels of \<^verbatim>\<open>game.go\<close> are constructors; \<open>New m\<close> is
  \<^verbatim>\<open>errors.New(m)\<close> or a \<^verbatim>\<open>fmt.Errorf\<close> without \<^verbatim>\<open>%w\<close>, \<open>Wrap m e\<close> is
  \<^verbatim>\<open>fmt.Errorf("m: %w", e)\<close>, and \<open>Panic m\<close> is a run-time panic.
\<close>

datatype error =
    ErrNoWordSet
  | ErrMaxHintsUsed
  | ErrTurnNotActive
  | ErrGameNotFound
  | ErrGameFull
  | ErrInvalidGameState
  | ErrNotPlayerTurn
  | ErrPlayerNotFound
  | ErrNoRows
  | New string
  | Wrap string error
  | Panic string

section \<open>models.go\<close>

type_synonym HintType = string

definition HintTypeDefinition :: HintType where
  "HintTypeDefinition = ''definition''"

definition HintTypeExampleSentence :: HintType where
  "HintTypeExampleSentence = ''example_sentence''"

definition HintTypeEtymology :: HintType where
  "HintTypeEtymology = ''etymology''"

definition HintTypeSentence :: HintType where
  "HintTypeSentence = ''sentence''"

definition HintTypePartOfSpeech :: HintType where
  "HintTypePartOfSpeech = ''part_of_speech''"

definition HintTypePronunciation :: HintType where
  "HintTypePronunciation = ''pronunciation''"

definition HintTypePhonetic :: HintType where
  "HintTypePhonetic = ''phonetic''"

definition HintTypeSynonym :: HintType where
  "HintTypeSynonym = ''synonym''"

text \<open>The struct \<^verbatim>\<open>Word\<close>; its field \<^verbatim>\<open>Word\<close> is \<open>Word_Word\<close>.\<close>

record Word =
  Word_ID :: string
  Word_Word :: string
  Definition :: string
  ExampleSentence :: string
  Etymology :: string
  PartOfSpeech :: string
  Pronunciation :: string
  AudioURL :: string
  Word_CreatedAt :: time
  Word_UpdatedAt :: time

record Hint =
  Hint_Type :: HintType
  Content :: string

type_synonym EventType = string


definition EventTypeGameStarted :: EventType where
  "EventTypeGameStarted = ''game_started''"

definition EventTypeAttemptSucceeded :: EventType where
  "EventTypeAttemptSucceeded = ''attempt_succeeded''"

definition EventTypeAttemptFailed :: EventType where
  "EventTypeAttemptFailed = ''attempt_failed''"

definition EventTypeHintRequested :: EventType where
  "EventTypeHintRequested = ''hint_requested''"

type_synonym GameType = string

definition GameTypeSolo :: GameType where
  "GameTypeSolo = ''solo''"

definition GameTypeMulti :: GameType where
  "GameTypeMulti = ''multi''"

definition GameTypePractice :: GameType where
  "GameTypePractice = ''practice''"

type_synonym GameStatus = string

definition GameStatusCreated :: GameStatus where
  "GameStatusCreated = ''created''"


definition GameStatusWaiting :: GameStatus where
  "GameStatusWaiting = ''waiting''"

definition GameStatusPlaying :: GameStatus where
  "GameStatusPlaying = ''playing''"

definition GameStatusActive :: GameStatus where
  "GameStatusActive = ''active''"

definition GameStatusFinished :: GameStatus where
  "GameStatusFinished = ''finished''"

definition GameStatusCancelled :: GameStatus where
  "GameStatusCancelled = ''cancelled''"

text \<open>
  The struct \<^verbatim>\<open>GameSettings\<close> of package \<^verbatim>\<open>game\<close>. A field whose name another
  struct of the repository has too carries the name of its struct in front.
\<close>

record GameSettings =
  MinPlayers :: int
  MaxPlayers :: int
  TimeLimit :: Duration
  Category :: "string option"
  IsRanked :: bool
  Elimination :: bool
  WordLevel :: int
  HintsAllowed :: int
  SpellStartTimeout :: Duration

record Player =
  Player_ID :: string
  Player_GameID :: string
  UserID :: string
  Score :: int
  Player_Status :: string
  IsBot :: bool
  Attempts :: int
  Correct :: int
  JoinedAt :: time

type_synonym AttemptType = string

definition AttemptTypeText :: AttemptType where
  "AttemptTypeText = ''text''"

definition AttemptTypeVoice :: AttemptType where
  "AttemptTypeVoice = ''voice''"

record SpellingAttempt =
  Attempt_ID :: string
  Attempt_GameID :: string
  Attempt_PlayerID :: string
  Attempt_Word :: string
  Attempt_Type :: AttemptType
  VoiceData :: string
  Text :: string
  IsCorrect :: bool
  Timestamp :: time

record Game =
  Game_ID :: string
  Game_Type :: GameType
  Status :: GameStatus
  Game_Mode :: string
  Settings :: GameSettings
  Game_CurrentWord :: "Word option"
  CurrentTurn :: "string option"
  MeetingID :: "string option"
  Round :: int
  Game_MaxRounds :: "int option"
  Game_TimeLimit :: "Duration option"
  Game_EnableVideo :: bool
  Game_EnableVoice :: bool
  Game_RecordGame :: bool
  CreatedAt :: time
  UpdatedAt :: time
  Game_TurnStartedAt :: "time option"
  Game_HintsUsed :: "(string \<times> string list) list"
  Game_WordMasked :: bool
  HostID :: string
  LastActivity :: time
  CurrentPlayer :: string
  Players :: "Player list"

text \<open>
  The payload of an event is a \<^verbatim>\<open>map[string]any\<close>; the values that the service puts
  into one are a game, a word, an attempt, a truth value or a hint.
\<close>

datatype payload = PGame Game | PWord Word | PAttempt SpellingAttempt | PBool bool | PHint Hint

record GameEvent =
  Event_Type :: EventType
  Event_GameID :: string
  Event_PlayerID :: "string option"
  Event_Timestamp :: time
  Payload :: "(string \<times> payload) list"

section \<open>The dictionary service\<close>

text \<open>
  The interface \<^verbatim>\<open>DictionaryService\<close>. A method returning \<^verbatim>\<open>(v, error)\<close> is a function
  into \<open>error + v\<close>: its callers test the error first and drop the value when it is
  set. A \<^verbatim>\<open>*Word\<close> result may be nil, hence \<open>Word option\<close>.
\<close>

record DictionaryService =
  dictGetWordInfo :: "string \<Rightarrow> error + Word option"
  dictGenerateAudio :: "string \<Rightarrow> error + string"
  dictGetHint :: "Word \<Rightarrow> HintType \<Rightarrow> error + string"

text \<open>The method \<^verbatim>\<open>GetHint\<close> of the repository's own \<^verbatim>\<open>dictionaryService\<close>.\<close>

definition dictionaryService_GetHint :: "Word \<Rightarrow> HintType \<Rightarrow> error + string" where
  "dictionaryService_GetHint word hintType =
     (if hintType = HintTypeDefinition then Inr (Definition word)
      else if hintType = HintTypeSentence then Inr (ExampleSentence word)
      else if hintType = HintTypeEtymology then Inr (Etymology word)
      else if hintType = HintTypePartOfSpeech then Inr (PartOfSpeech word)
      else if hintType = HintTypePronunciation then Inr (Pronunciation word)
      else Inl (New (''invalid hint type: '' @ hintType)))"

section \<open>Strings\<close>

text \<open>
  A Go string is a sequence of bytes, here a \<open>string\<close>. \<^verbatim>\<open>strings.EqualFold\<close> and
  \<^verbatim>\<open>strings.TrimSpace\<close> run a byte loop over ASCII and, at the first byte that is not
  ASCII (\<^verbatim>\<open>utf8.RuneSelf = 0x80\<close>), continue with the Unicode tables of the Go library.
  The byte loops are modelled as they are written; the three continuations are the
  fields of \<open>unicode\<close>.
\<close>

record unicode =
  hasUnicode :: "string \<Rightarrow> string \<Rightarrow> bool"
  TrimFunc_IsSpace :: "string \<Rightarrow> string"
  TrimRightFunc_IsSpace :: "string \<Rightarrow> string"

definition RuneSelf :: nat where
  "RuneSelf = 128"

definition byte :: "char \<Rightarrow> nat" where
  "byte c = of_char c"

fun EqualFold :: "unicode \<Rightarrow> string \<Rightarrow> string \<Rightarrow> bool" where
  "EqualFold U [] [] = True"
| "EqualFold U [] (tr # t) = False"
| "EqualFold U (sr # s) [] = False"
| "EqualFold U (sr # s) (tr # t) =
     (if RuneSelf \<le> byte sr \<or> RuneSelf \<le> byte tr then hasUnicode U (sr # s) (tr # t)
      else if tr = sr then EqualFold U s t
      else
        let lo = min (byte sr) (byte tr); hi = max (byte sr) (byte tr)
        in if 65 \<le> lo \<and> lo \<le> 90 \<and> hi = lo + 32 then EqualFold U s t else False)"

text \<open>The table \<^verbatim>\<open>asciiSpace\<close>: tab, line feed, vertical tab, form feed, carriage return, space.\<close>

definition asciiSpace :: "char \<Rightarrow> bool" where
  "asciiSpace c = (byte c = 9 \<or> byte c = 10 \<or> byte c = 11 \<or> byte c = 12 \<or> byte c = 13 \<or> byte c = 32)"

text \<open>The second loop of \<^verbatim>\<open>TrimSpace\<close>, from the end; its argument is the rest reversed.\<close>

fun TrimSpace_stop :: "unicode \<Rightarrow> string \<Rightarrow> string" where
  "TrimSpace_stop U [] = []"
| "TrimSpace_stop U (c # r) =
     (if RuneSelf \<le> byte c then TrimRightFunc_IsSpace U (rev (c # r))
      else if asciiSpace c then TrimSpace_stop U r
      else rev (c # r))"

fun TrimSpace :: "unicode \<Rightarrow> string \<Rightarrow> string" where
  "TrimSpace U [] = []"
| "TrimSpace U (c # s) =
     (if RuneSelf \<le> byte c then TrimFunc_IsSpace U (c # s)
      else if asciiSpace c then TrimSpace U s
      else TrimSpace_stop U (rev (c # s)))"

section \<open>The game engine (game.go)\<close>

definition MaxHints :: int where
  "MaxHints = 3"

definition TurnTimeout :: Duration where
  "TurnTimeout = 10 * Second"

text \<open>
  The struct \<^verbatim>\<open>GameEngine\<close>. Its field \<^verbatim>\<open>dict\<close> is the dictionary service the engine was
  built with; no method assigns it. The service is outside the program and may answer
  differently from one call to the next, so each method that consults it takes the
  service, as it answers at that call, as its argument \<open>dict\<close>.
\<close>

record GameEngine =
  ID :: string
  CurrentWord :: "Word option"
  WordMasked :: bool
  HintsUsed :: int
  TurnStartedAt :: "time option"

definition NewGameEngine :: "string \<Rightarrow> GameEngine" where
  "NewGameEngine gid =
     \<lparr>ID = gid, CurrentWord = None, WordMasked = False, HintsUsed = 0, TurnStartedAt = None\<rparr>"

definition StartNewTurn :: "DictionaryService \<Rightarrow> time \<Rightarrow> GameEngine \<Rightarrow> error option \<times> GameEngine" where
  "StartNewTurn dict now g =
     (case dictGetWordInfo dict '''' of
        Inl err \<Rightarrow> (Some (Wrap ''failed to get word'' err), g)
      | Inr word \<Rightarrow>
          (None, g\<lparr>CurrentWord := word, WordMasked := True, HintsUsed := 0,
                   TurnStartedAt := Some now\<rparr>))"

definition StartTurn :: "DictionaryService \<Rightarrow> time \<Rightarrow> GameEngine \<Rightarrow> string \<Rightarrow> error option \<times> GameEngine" where
  "StartTurn dict now g word =
     (case dictGetWordInfo dict word of
        Inl err \<Rightarrow> (Some (Wrap ''failed to get word info'' err), g)
      | Inr wordInfo \<Rightarrow>
          (None, g\<lparr>CurrentWord := wordInfo, WordMasked := True, HintsUsed := 0,
                   TurnStartedAt := Some now\<rparr>))"

definition ValidateAttempt :: "unicode \<Rightarrow> time \<Rightarrow> GameEngine \<Rightarrow> string \<Rightarrow> error + bool" where
  "ValidateAttempt U now g attempt =
     (case CurrentWord g of
        None \<Rightarrow> Inl ErrNoWordSet
      | Some w \<Rightarrow>
          (case TurnStartedAt g of
             None \<Rightarrow> Inl ErrTurnNotActive
           | Some started \<Rightarrow>
               if now - started > TurnTimeout then Inl (New ''turn has timed out'')
               else Inr (EqualFold U attempt (Word_Word w))))"

definition GetHint :: "DictionaryService \<Rightarrow> GameEngine \<Rightarrow> HintType \<Rightarrow> (error + string) \<times> GameEngine" where
  "GetHint dict g hintType =
     (case CurrentWord g of
        None \<Rightarrow> (Inl ErrNoWordSet, g)
      | Some w \<Rightarrow>
          if HintsUsed g \<ge> MaxHints then (Inl ErrMaxHintsUsed, g)
          else
            (case dictGetHint dict w hintType of
               Inl err \<Rightarrow> (Inl (Wrap ''failed to get hint'' err), g)
             | Inr hint \<Rightarrow> (Inr hint, g\<lparr>HintsUsed := HintsUsed g + 1\<rparr>)))"

definition CheckTimeLimit :: "time \<Rightarrow> GameEngine \<Rightarrow> bool" where
  "CheckTimeLimit now g =
     (case TurnStartedAt g of
        None \<Rightarrow> False
      | Some started \<Rightarrow> now - started \<le> TurnTimeout)"

definition RevealWord :: "GameEngine \<Rightarrow> error option \<times> GameEngine" where
  "RevealWord g =
     (case CurrentWord g of
        None \<Rightarrow> (Some ErrNoWordSet, g)
      | Some w \<Rightarrow> (None, g\<lparr>WordMasked := False\<rparr>))"

definition GenerateWordAudio :: "DictionaryService \<Rightarrow> GameEngine \<Rightarrow> error + string" where
  "GenerateWordAudio dict g =
     (case CurrentWord g of
        None \<Rightarrow> Inl ErrNoWordSet
      | Some w \<Rightarrow> dictGenerateAudio dict (Word_Word w))"

definition RequestHint :: "GameEngine \<Rightarrow> HintType \<Rightarrow> error + Hint" where
  "RequestHint g hintType =
     (case CurrentWord g of
        None \<Rightarrow> Inl (New ''no word is currently active'')
      | Some w \<Rightarrow>
          if hintType = HintTypeDefinition then
            Inr \<lparr>Hint_Type = HintTypeDefinition, Content = ''Sample definition hint''\<rparr>
          else if hintType = HintTypePhonetic then
            Inr \<lparr>Hint_Type = HintTypePhonetic, Content = ''Sample phonetic hint''\<rparr>
          else if hintType = HintTypeSynonym then
            Inr \<lparr>Hint_Type = HintTypeSynonym, Content = ''Sample synonym hint''\<rparr>
          else Inl (New (''unsupported hint type: '' @ hintType)))"

definition UnmaskWord :: "GameEngine \<Rightarrow> string \<times> GameEngine" where
  "UnmaskWord g =
     (case CurrentWord g of
        None \<Rightarrow> ([], g)
      | Some w \<Rightarrow> (Word_Word w, g\<lparr>WordMasked := False\<rparr>))"

subsection \<open>Sequences of engine operations\<close>

text \<open>
  A call of one method of the engine, with the arguments it is given and the clock it
  reads. A step of a run is such a call together with the dictionary service as it
  answers during the call; \<open>run\<close> lists every state the engine passes through.
\<close>

datatype engine_op =
    OpStartNewTurn time
  | OpStartTurn string time
  | OpValidateAttempt string time
  | OpGetHint HintType
  | OpCheckTimeLimit time
  | OpRevealWord
  | OpGenerateWordAudio
  | OpRequestHint HintType
  | OpUnmaskWord

fun apply_op :: "DictionaryService \<Rightarrow> engine_op \<Rightarrow> GameEngine \<Rightarrow> GameEngine" where
  "apply_op dict (OpStartNewTurn now) g = snd (StartNewTurn dict now g)"
| "apply_op dict (OpStartTurn word now) g = snd (StartTurn dict now g word)"
| "apply_op dict (OpValidateAttempt attempt now) g = g"
| "apply_op dict (OpGetHint hintType) g = snd (GetHint dict g hintType)"
| "apply_op dict (OpCheckTimeLimit now) g = g"
| "apply_op dict OpRevealWord g = snd (RevealWord g)"
| "apply_op dict OpGenerateWordAudio g = g"
| "apply_op dict (OpRequestHint hintType) g = g"
| "apply_op dict OpUnmaskWord g = snd (UnmaskWord g)"

fun run :: "(DictionaryService \<times> engine_op) list \<Rightarrow> GameEngine \<Rightarrow> GameEngine list" where
  "run [] g = [g]"
| "run ((dict, oper) # steps) g = g # run steps (apply_op dict oper g)"

section \<open>The word service (word\_service.go)\<close>

definition ValidateSpelling :: "unicode \<Rightarrow> string \<Rightarrow> string \<Rightarrow> bool" where
  "ValidateSpelling U word attempt = EqualFold U (TrimSpace U word) (TrimSpace U attempt)"

text \<open>The interface \<^verbatim>\<open>WordService\<close>, as far as the game service calls it.\<close>

record WordService =
  GetRandomWord :: "int \<Rightarrow> string option \<Rightarrow> error + Word option"

section \<open>The game service (game.go)\<close>

text \<open>
  The database is outside the program: the service hands \<^verbatim>\<open>database/sql\<close> a statement
  with its arguments and reads the answer. A \<open>statement\<close> is one of the service's queries
  with the arguments it is sent with, in the order of the call.
\<close>

datatype statement =
    InsertGame string string GameType GameStatus GameSettings time time
  | SelectGame string
  | UpdateGameStart GameStatus string time time bool string
  | UpdateGameScore time string string
  | UpdateGameTouch time string

text \<open>
  The arguments of the service's statements are strings (also of a string type such as
  \<^verbatim>\<open>GameType\<close>), instants, booleans and, for the insertion of a game, the struct
  \<^verbatim>\<open>GameSettings\<close>.
\<close>

datatype arg = ArgString string | ArgTime time | ArgBool bool | ArgSettings GameSettings

fun args :: "statement \<Rightarrow> arg list" where
  "args (InsertGame gid host ty st settings created updated) =
     [ArgString gid, ArgString host, ArgString ty, ArgString st, ArgSettings settings,
      ArgTime created, ArgTime updated]"
| "args (SelectGame gid) = [ArgString gid]"
| "args (UpdateGameStart st wid updated started masked gid) =
     [ArgString st, ArgString wid, ArgTime updated, ArgTime started, ArgBool masked,
      ArgString gid]"
| "args (UpdateGameScore updated pid gid) = [ArgTime updated, ArgString pid, ArgString gid]"
| "args (UpdateGameTouch updated gid) = [ArgTime updated, ArgString gid]"

text \<open>
  \<^verbatim>\<open>database/sql\<close> converts every argument before the statement reaches the database
  (\<^verbatim>\<open>driverArgsConnLocked\<close>). Its own conversion, \<^verbatim>\<open>driver.DefaultParameterConverter\<close>,
  takes a string, an instant and a boolean. A struct it takes only as a
  \<^verbatim>\<open>driver.Valuer\<close>, and \<^verbatim>\<open>GameSettings\<close> is none: the method
  \<^verbatim>\<open>Value() (interface{}, error)\<close> of \<^verbatim>\<open>models.go\<close> has not the result type
  \<^verbatim>\<open>driver.Value\<close> of the method of the interface.
\<close>

fun ConvertValue :: "arg \<Rightarrow> error option" where
  "ConvertValue (ArgString v) = None"
| "ConvertValue (ArgTime v) = None"
| "ConvertValue (ArgBool v) = None"
| "ConvertValue (ArgSettings v) = Some (New ''unsupported type game.GameSettings, a struct'')"

definition ErrSkip :: error where
  "ErrSkip = New ''driver: skip fast-path; continue as if unimplemented''"

text \<open>
  The answers of the database are the functions of \<open>Database\<close>: \<open>dbScanID\<close> for
  \<^verbatim>\<open>QueryRowContext(...).Scan(&game.ID)\<close> and \<open>dbGetGame\<close> for \<^verbatim>\<open>GetContext\<close> into a
  \<^verbatim>\<open>Game\<close>. \<open>dbConn\<close> is the error of taking a connection, if that fails. A driver may
  check the arguments itself (\<^verbatim>\<open>driver.NamedValueChecker\<close>): \<open>CheckNamedValue\<close> is that
  check, and \<open>None\<close> for a driver that has none. The statements that write are recorded
  in \<open>sent\<close> as they reach the database, latest last.
\<close>

record Database =
  dbConn :: "error option"
  CheckNamedValue :: "(arg \<Rightarrow> error option) option"
  dbScanID :: "statement \<Rightarrow> error + string"
  dbGetGame :: "statement \<Rightarrow> error + Game"
  sent :: "statement list"

text \<open>
  The check of one argument: the driver's, and the default conversion where the driver
  has no check or answers \<open>ErrSkip\<close>.
\<close>

definition checkArg :: "Database \<Rightarrow> arg \<Rightarrow> error option" where
  "checkArg d a =
     (case CheckNamedValue d of
        None \<Rightarrow> ConvertValue a
      | Some checker \<Rightarrow>
          (case checker a of
             None \<Rightarrow> None
           | Some err \<Rightarrow> if err = ErrSkip then ConvertValue a else Some err))"

text \<open>The decimal digits of a number, as \<^verbatim>\<open>%d\<close> prints them.\<close>

fun itoa :: "nat \<Rightarrow> string" where
  "itoa n =
     (if n < 10 then [''0123456789'' ! n]
      else itoa (n div 10) @ [''0123456789'' ! (n mod 10)])"

declare itoa.simps [simp del]

text \<open>
  \<open>driverArgsConnLocked d n as\<close> checks the arguments \<open>as\<close>, of which the first is the
  \<open>n\<close>-th of the statement. The first argument refused fails the call, and nothing is sent.
\<close>

fun driverArgsConnLocked :: "Database \<Rightarrow> int \<Rightarrow> arg list \<Rightarrow> error option" where
  "driverArgsConnLocked d n [] = None"
| "driverArgsConnLocked d n (a # rest) =
     (case checkArg d a of
        Some err \<Rightarrow> Some (Wrap (''sql: converting argument $'' @ itoa (nat n) @ '' type'') err)
      | None \<Rightarrow> driverArgsConnLocked d (n + 1) rest)"

text \<open>
  What \<^verbatim>\<open>database/sql\<close> does with a statement before the database runs it: it takes a
  connection, then converts the arguments. \<open>query d stmt\<close> is the error of that, and
  \<open>None\<close> when the statement reaches the database.
\<close>

definition query :: "Database \<Rightarrow> statement \<Rightarrow> error option" where
  "query d stmt =
     (case dbConn d of
        Some err \<Rightarrow> Some err
      | None \<Rightarrow> driverArgsConnLocked d 1 (args stmt))"

text \<open>
  The struct \<^verbatim>\<open>gameService\<close>. The channel \<^verbatim>\<open>eventChan\<close> is the list of the events sent and
  not yet received, oldest first; it holds at most \<open>eventChanCap\<close> events.
\<close>

record gameService =
  db :: Database
  wordService :: WordService
  dictService :: DictionaryService
  eventChan :: "GameEvent list"
  activeGames :: "string \<rightharpoonup> GameEngine"

definition eventChanCap :: nat where
  "eventChanCap = 100"

text \<open>
  A send on a full channel blocks until an event is received. The model has no receiver,
  so such a send never returns: \<open>emitEvent\<close> is \<open>None\<close> then, and so is the method of the
  service that called it.
\<close>

definition emitEvent ::
  "time \<Rightarrow> gameService \<Rightarrow> EventType \<Rightarrow> string \<Rightarrow> string option \<Rightarrow> (string \<times> payload) list \<Rightarrow>
   gameService option" where
  "emitEvent now s eventType gameID playerID payload =
     (let event = \<lparr>Event_Type = eventType, Event_GameID = gameID, Event_PlayerID = playerID,
                       Event_Timestamp = now, Payload = payload\<rparr>
      in if length (eventChan s) < eventChanCap then Some (s\<lparr>eventChan := eventChan s @ [event]\<rparr>)
         else None)"

definition exec :: "statement \<Rightarrow> gameService \<Rightarrow> gameService" where
  "exec stmt s = s\<lparr>db := (db s)\<lparr>sent := sent (db s) @ [stmt]\<rparr>\<rparr>"

text \<open>The zero value of \<^verbatim>\<open>GameSettings\<close> and of \<^verbatim>\<open>Game\<close>.\<close>

definition zeroSettings :: GameSettings where
  "zeroSettings =
     \<lparr>MinPlayers = 0, MaxPlayers = 0, TimeLimit = 0, Category = None, IsRanked = False,
      Elimination = False, WordLevel = 0, HintsAllowed = 0, SpellStartTimeout = 0\<rparr>"

definition zeroGame :: Game where
  "zeroGame =
     \<lparr>Game_ID = [], Game_Type = [], Status = [], Game_Mode = [], Settings = zeroSettings,
      Game_CurrentWord = None, CurrentTurn = None, MeetingID = None, Round = 0,
      Game_MaxRounds = None, Game_TimeLimit = None, Game_EnableVideo = False,
      Game_EnableVoice = False, Game_RecordGame = False, CreatedAt = 0, UpdatedAt = 0,
      Game_TurnStartedAt = None, Game_HintsUsed = [], Game_WordMasked = False, HostID = [],
      LastActivity = 0, CurrentPlayer = [], Players = []\<rparr>"


definition GetGame :: "gameService \<Rightarrow> string \<Rightarrow> error + Game" where
  "GetGame s gameID =
     (case query (db s) (SelectGame gameID) of
        Some err \<Rightarrow> Inl (Wrap ''failed to get game'' err)
      | None \<Rightarrow>
          (case dbGetGame (db s) (SelectGame gameID) of
             Inl err \<Rightarrow> if err = ErrNoRows then Inl ErrGameNotFound
                        else Inl (Wrap ''failed to get game'' err)
           | Inr game \<Rightarrow>
               (case activeGames s gameID of
                  Some engine \<Rightarrow>
                    Inr (game\<lparr>Game_CurrentWord := CurrentWord engine,
                              Game_WordMasked := WordMasked engine,
                              Game_TurnStartedAt := TurnStartedAt engine\<rparr>)
                | None \<Rightarrow> Inr game)))"

text \<open>
  \<open>StartGame\<close>. The engine of the game is registered, if the game had none, before the
  word is read, so a nil word of the word service panics with the engine registered. The
  clock is read by the engine's \<open>StartTurn\<close>, for the statement and for the event.
\<close>

definition StartGame ::
  "time \<Rightarrow> time \<Rightarrow> time \<Rightarrow> gameService \<Rightarrow> string \<Rightarrow> string \<Rightarrow>
   ((error + Game) \<times> gameService) option" where
  "StartGame startedAt now emittedAt s gameID userID =
     (case GetGame s gameID of
        Inl err \<Rightarrow> Some (Inl err, s)
      | Inr game \<Rightarrow>
          if Status game \<noteq> GameStatusWaiting then Some (Inl ErrInvalidGameState, s)
          else
            (case GetRandomWord (wordService s) (WordLevel (Settings game)) (Category (Settings game)) of
               Inl err \<Rightarrow> Some (Inl (Wrap ''failed to get word'' err), s)
             | Inr w \<Rightarrow>
                 (let engine = (case activeGames s gameID of
                                  None \<Rightarrow> NewGameEngine gameID
                                | Some e \<Rightarrow> e);
                      s1 = s\<lparr>activeGames := (activeGames s)(gameID \<mapsto> engine)\<rparr>
                  in case w of
                       None \<Rightarrow>
                         Some (Inl (Panic ''runtime error: invalid memory address or nil pointer dereference''),
                               s1)
                     | Some word \<Rightarrow>
                         (case StartTurn (dictService s) startedAt engine (Word_Word word) of
                            (Some err, engine1) \<Rightarrow> Some (Inl (Wrap ''failed to start turn'' err), s1)
                          | (None, engine1) \<Rightarrow>
                              (let s2 = s1\<lparr>activeGames := (activeGames s1)(gameID \<mapsto> engine1)\<rparr>;
                                   stmt = UpdateGameStart GameStatusActive (Word_ID word) now now
                                            True gameID
                               in case query (db s) stmt of
                                    Some err \<Rightarrow> Some (Inl (Wrap ''failed to update game'' err), s2)
                                  | None \<Rightarrow>
                                      (let s3 = exec stmt s2
                                       in case dbGetGame (db s) stmt of
                                            Inl err \<Rightarrow>
                                              Some (Inl (Wrap ''failed to update game'' err), s3)
                                          | Inr game1 \<Rightarrow>
                                              (case emitEvent emittedAt s3 EventTypeGameStarted
                                                      gameID None
                                                      [(''game'', PGame game1), (''word'', PWord word)] of
                                                 None \<Rightarrow> None
                                               | Some s4 \<Rightarrow> Some (Inr game1, s4))))))))"

text \<open>
  \<open>MakeAttempt\<close>. The statement of a correct attempt names the placeholders
  \<^verbatim>\<open>$1\<close>, \<^verbatim>\<open>$2\<close> and \<^verbatim>\<open>$4\<close> and is sent with three arguments, \<open>now\<close>, \<open>playerID\<close> and
  \<open>gameID\<close>; that of an incorrect one sets \<^verbatim>\<open>updated_at\<close> only. The clock is read by the
  engine's \<open>ValidateAttempt\<close>, for the statement and for the event.
\<close>

definition MakeAttempt ::
  "unicode \<Rightarrow> time \<Rightarrow> time \<Rightarrow> time \<Rightarrow> gameService \<Rightarrow> string \<Rightarrow> string \<Rightarrow> SpellingAttempt \<Rightarrow>
   (error option \<times> gameService) option" where
  "MakeAttempt U validatedAt now emittedAt s gameID playerID attempt =
     (case GetGame s gameID of
        Inl err \<Rightarrow> Some (Some (Wrap ''failed to get game'' err), s)
      | Inr game \<Rightarrow>
          if Status game \<noteq> GameStatusActive then Some (Some ErrInvalidGameState, s)
          else
            (case activeGames s gameID of
               None \<Rightarrow> Some (Some ErrGameNotFound, s)
             | Some engine \<Rightarrow>
                 (case ValidateAttempt U validatedAt engine (Text attempt) of
                    Inl err \<Rightarrow> Some (Some (Wrap ''failed to validate attempt'' err), s)
                  | Inr isCorrect \<Rightarrow>
                      (let stmt = (if isCorrect then UpdateGameScore now playerID gameID
                                   else UpdateGameTouch now gameID)
                       in case query (db s) stmt of
                            Some err \<Rightarrow> Some (Some (Wrap ''failed to update game'' err), s)
                          | None \<Rightarrow>
                              (let s1 = exec stmt s
                               in case dbGetGame (db s) stmt of
                                    Inl err \<Rightarrow> Some (Some (Wrap ''failed to update game'' err), s1)
                                  | Inr game1 \<Rightarrow>
                                      (let eventType =
                                             (if isCorrect then EventTypeAttemptSucceeded
                                              else EventTypeAttemptFailed)
                                       in case emitEvent emittedAt s1 eventType gameID (Some playerID)
                                                 [(''attempt'', PAttempt attempt),
                                                  (''correct'', PBool isCorrect)] of
                                            None \<Rightarrow> None
                                          | Some s2 \<Rightarrow> Some (None, s2)))))))"

text \<open>
  The method \<^verbatim>\<open>GetHint\<close> of the service. The kind of hint is the entry of \<open>hintTypes\<close> at
  the remainder of the clock's nanoseconds by 5; Go's remainder has the sign of the
  dividend, and a negative index panics. The clock is read for the kind of hint and for
  the event.
\<close>

definition hintTypes :: "HintType list" where
  "hintTypes =
     [HintTypeDefinition, HintTypeExampleSentence, HintTypeEtymology, HintTypePartOfSpeech,
      HintTypePronunciation]"

definition go_rem :: "int \<Rightarrow> int \<Rightarrow> int" where
  "go_rem a b = sgn a * (\<bar>a\<bar> mod \<bar>b\<bar>)"

definition gameService_GetHint ::
  "time \<Rightarrow> time \<Rightarrow> gameService \<Rightarrow> string \<Rightarrow> string \<Rightarrow> ((error + Hint) \<times> gameService) option" where
  "gameService_GetHint now emittedAt s gameID playerID =
     (case GetGame s gameID of
        Inl err \<Rightarrow> Some (Inl (Wrap ''failed to get game'' err), s)
      | Inr game \<Rightarrow>
          if Status game \<noteq> GameStatusActive then Some (Inl ErrInvalidGameState, s)
          else
            (case activeGames s gameID of
               None \<Rightarrow> Some (Inl ErrGameNotFound, s)
             | Some engine \<Rightarrow>
                 (let i = go_rem now (int (length hintTypes))
                  in if i < 0 then
                       Some (Inl (Panic (''runtime error: index out of range [-'' @
                                         itoa (nat (- i)) @ '']'')), s)
                     else
                       (let hintType = hintTypes ! nat i
                        in case GetHint (dictService s) engine hintType of
                             (Inl err, engine1) \<Rightarrow> Some (Inl (Wrap ''failed to get hint'' err), s)
                           | (Inr hint, engine1) \<Rightarrow>
                               (let s1 = s\<lparr>activeGames := (activeGames s)(gameID \<mapsto> engine1)\<rparr>;
                                    h = \<lparr>Hint_Type = hintType, Content = hint\<rparr>
                                in case emitEvent emittedAt s1 EventTypeHintRequested gameID
                                          (Some playerID) [(''hint'', PHint h)] of
                                     None \<Rightarrow> None
                                   | Some s2 \<Rightarrow> Some (Inr h, s2))))))"

section \<open>Game modes (package modes)\<close>

type_synonym GameMode = string

definition ModeRoundRobin :: GameMode where
  "ModeRoundRobin = ''round_robin''"

definition ModeRapidFire :: GameMode where
  "ModeRapidFire = ''rapid_fire''"

definition ModeTotalGame :: GameMode where
  "ModeTotalGame = ''total_game''"



section \<open>Numbers of the Go run time\<close>

text \<open>
  The type \<^verbatim>\<open>int\<close> is 64 bits wide. Its values are the integers from \<open>- 2 ^ 63\<close> up to
  \<open>2 ^ 63 - 1\<close>, and a sum, difference or product is the exact one wrapped into that
  range by \<open>wrap64\<close>.
\<close>

definition wrap64 :: "int \<Rightarrow> int" where
  "wrap64 i = (i + 2 ^ 63) mod 2 ^ 64 - 2 ^ 63"

text \<open>
  A \<^verbatim>\<open>float64\<close> is an IEEE 754 binary64 number: a finite one, which is a rational, an
  infinity, or not a number. The two zeros are one here: no comparison tells them
  apart, both convert to the integer 0, and the only divisor below is the \<^verbatim>\<open>float64\<close> of
  an \<^verbatim>\<open>int\<close>, which is never the negative zero.
\<close>

datatype f64 = Finite rat | PosInf | NegInf | NaN

text \<open>\<open>pow2 e\<close> is 2 to the power \<open>e\<close>, and \<open>ilog2 x\<close> the exponent of the binade of a positive \<open>x\<close>.\<close>

definition pow2 :: "int \<Rightarrow> rat" where
  "pow2 e = 2 powi e"

fun log2floor :: "nat \<Rightarrow> nat" where
  "log2floor n = (if n < 2 then 0 else Suc (log2floor (n div 2)))"

declare log2floor.simps [simp del]

definition ilog2 :: "rat \<Rightarrow> int" where
  "ilog2 x =
     (if 1 \<le> x then int (log2floor (nat \<lfloor>x\<rfloor>))
      else
        let n = nat \<lceil>1 / x\<rceil>
        in - int (if n \<le> 1 then 0 else Suc (log2floor (n - 1))))"

text \<open>
  Rounding to nearest, ties to even: \<open>round64 x\<close> is the \<^verbatim>\<open>float64\<close> nearest to the rational
  \<open>x\<close>. The significand has 53 bits, so the representable numbers of the binade of
  exponent \<open>e\<close> are the multiples of \<open>pow2 (e - 52)\<close>; below \<open>pow2 (- 1022)\<close> they are the
  multiples of \<open>pow2 (- 1074)\<close>; a result of magnitude \<open>pow2 1024\<close> or more is an infinity.
\<close>

definition round_half_even :: "rat \<Rightarrow> int" where
  "round_half_even y =
     (let f = \<lfloor>y\<rfloor>; d = y - of_int f
      in if d < 1 / 2 then f else if 1 / 2 < d then f + 1 else if even f then f else f + 1)"

definition round64 :: "rat \<Rightarrow> f64" where
  "round64 x =
     (if x = 0 then Finite 0
      else
        let e = max (ilog2 \<bar>x\<bar>) (- 1022);
            q = pow2 (e - 52);
            r = of_int (round_half_even (\<bar>x\<bar> / q)) * q
        in if pow2 1024 \<le> r then (if 0 < x then PosInf else NegInf)
           else Finite (sgn x * r))"

text \<open>
  The operations on \<^verbatim>\<open>float64\<close>: each is the exact operation followed by one rounding.
  \<open>float64 i\<close> is the conversion of an \<^verbatim>\<open>int\<close>.
\<close>

definition float64 :: "int \<Rightarrow> f64" where
  "float64 i = round64 (of_int i)"

fun f64_mul :: "f64 \<Rightarrow> f64 \<Rightarrow> f64" where
  "f64_mul (Finite a) (Finite b) = round64 (a * b)"
| "f64_mul (Finite a) PosInf = (if a = 0 then NaN else if 0 < a then PosInf else NegInf)"
| "f64_mul (Finite a) NegInf = (if a = 0 then NaN else if 0 < a then NegInf else PosInf)"
| "f64_mul PosInf (Finite b) = (if b = 0 then NaN else if 0 < b then PosInf else NegInf)"
| "f64_mul NegInf (Finite b) = (if b = 0 then NaN else if 0 < b then NegInf else PosInf)"
| "f64_mul PosInf PosInf = PosInf"
| "f64_mul PosInf NegInf = NegInf"
| "f64_mul NegInf PosInf = NegInf"
| "f64_mul NegInf NegInf = PosInf"
| "f64_mul NaN y = NaN"
| "f64_mul x NaN = NaN"

fun f64_add :: "f64 \<Rightarrow> f64 \<Rightarrow> f64" where
  "f64_add (Finite a) (Finite b) = round64 (a + b)"
| "f64_add (Finite a) PosInf = PosInf"
| "f64_add (Finite a) NegInf = NegInf"
| "f64_add PosInf (Finite b) = PosInf"
| "f64_add NegInf (Finite b) = NegInf"
| "f64_add PosInf PosInf = PosInf"
| "f64_add PosInf NegInf = NaN"
| "f64_add NegInf PosInf = NaN"
| "f64_add NegInf NegInf = NegInf"
| "f64_add NaN y = NaN"
| "f64_add x NaN = NaN"

fun f64_div :: "f64 \<Rightarrow> f64 \<Rightarrow> f64" where
  "f64_div (Finite a) (Finite b) =
     (if b = 0 then (if a = 0 then NaN else if 0 < a then PosInf else NegInf)
      else round64 (a / b))"
| "f64_div (Finite a) PosInf = Finite 0"
| "f64_div (Finite a) NegInf = Finite 0"
| "f64_div PosInf (Finite b) = (if 0 \<le> b then PosInf else NegInf)"
| "f64_div NegInf (Finite b) = (if 0 \<le> b then NegInf else PosInf)"
| "f64_div PosInf PosInf = NaN"
| "f64_div PosInf NegInf = NaN"
| "f64_div NegInf PosInf = NaN"
| "f64_div NegInf NegInf = NaN"
| "f64_div NaN y = NaN"
| "f64_div x NaN = NaN"

fun f64_lt :: "f64 \<Rightarrow> f64 \<Rightarrow> bool" where
  "f64_lt (Finite a) (Finite b) = (a < b)"
| "f64_lt (Finite a) PosInf = True"
| "f64_lt NegInf (Finite b) = True"
| "f64_lt NegInf PosInf = True"
| "f64_lt x y = False"

fun f64_le :: "f64 \<Rightarrow> f64 \<Rightarrow> bool" where
  "f64_le (Finite a) (Finite b) = (a \<le> b)"
| "f64_le (Finite a) PosInf = True"
| "f64_le NegInf (Finite b) = True"
| "f64_le NegInf NegInf = True"
| "f64_le NegInf PosInf = True"
| "f64_le PosInf PosInf = True"
| "f64_le x y = False"

text \<open>
  The conversion \<^verbatim>\<open>int(f)\<close> drops the fraction of \<open>f\<close>. Go leaves its value to the
  implementation when \<open>f\<close> is not a number or its integer part is no \<^verbatim>\<open>int\<close>: the model
  has \<open>None\<close> there.
\<close>

definition truncate :: "rat \<Rightarrow> int" where
  "truncate a = (if 0 \<le> a then \<lfloor>a\<rfloor> else \<lceil>a\<rceil>)"

fun f64_to_int :: "f64 \<Rightarrow> int option" where
  "f64_to_int (Finite a) =
     (if - (2 ^ 63) \<le> truncate a \<and> truncate a < 2 ^ 63 then Some (truncate a) else None)"
| "f64_to_int x = None"

text \<open>\<^verbatim>\<open>math.Round\<close>: the nearest integer, halves away from zero.\<close>

fun math_Round :: "f64 \<Rightarrow> f64" where
  "math_Round (Finite a) = Finite (of_int (if 0 \<le> a then \<lfloor>a + 1 / 2\<rfloor> else \<lceil>a - 1 / 2\<rceil>))"
| "math_Round x = x"

text \<open>
  \<open>round64\<close> computed in stages, for evaluating it on numerals: \<open>round_at a q\<close> is the
  multiple of \<open>q\<close> nearest to \<open>a\<close>.
\<close>

definition rhe_at :: "rat \<Rightarrow> int \<Rightarrow> int" where
  "rhe_at y f =
     (if y - of_int f < 1 / 2 then f else if 1 / 2 < y - of_int f then f + 1
      else if even f then f else f + 1)"

definition round_at :: "rat \<Rightarrow> rat \<Rightarrow> rat" where
  "round_at a q = of_int (rhe_at (a / q) \<lfloor>a / q\<rfloor>) * q"

section \<open>Scoring (package modes)\<close>

text \<open>
  \<open>CalculateScore\<close>: the constants \<^verbatim>\<open>5.0\<close>, \<^verbatim>\<open>1.5\<close>, \<^verbatim>\<open>1.3\<close> and \<^verbatim>\<open>0.9\<close> are the
  \<^verbatim>\<open>float64\<close> nearest to them, and the average time is any \<^verbatim>\<open>float64\<close>.
\<close>

definition CalculateScore :: "GameMode \<Rightarrow> int \<Rightarrow> int \<Rightarrow> f64 \<Rightarrow> int option" where
  "CalculateScore mode correctAttempts totalAttempts averageTime =
     (let baseScore = wrap64 (correctAttempts * 100)
      in if mode = ModeRapidFire then
           (if f64_lt averageTime (round64 5) then
              f64_to_int (f64_mul (float64 baseScore) (round64 (3 / 2)))
            else Some baseScore)
         else if mode = ModeTotalGame then
           (let accuracy = f64_div (float64 correctAttempts) (float64 totalAttempts)
            in if f64_le (round64 (9 / 10)) accuracy then
                 f64_to_int (f64_mul (float64 baseScore) (round64 (13 / 10)))
               else Some baseScore)
         else Some baseScore)"

section \<open>Ranking (ranking.go)\<close>

definition GoldPoints :: int where
  "GoldPoints = 30"

definition SilverPoints :: int where
  "SilverPoints = 15"

definition BronzePoints :: int where
  "BronzePoints = 5"

text \<open>
  The local \<^verbatim>\<open>playerMultiplier\<close> of \<open>CalculatePoints\<close> is
  \<^verbatim>\<open>1.0 + (float64(playerCount-2) * 0.1)\<close>. Go allows a compiler to fuse the product and
  the sum into one operation that rounds once, and compilers do so on some
  architectures (arm64) and not on others (amd64): \<open>fused\<close> says which.
\<close>

definition playerMultiplier :: "bool \<Rightarrow> int \<Rightarrow> f64" where
  "playerMultiplier fused playerCount =
     (if playerCount > 2 then
        (if fused then
           (case (float64 (wrap64 (playerCount - 2)), round64 (1 / 10)) of
              (Finite a, Finite b) \<Rightarrow> round64 (1 + a * b)
            | _ \<Rightarrow> NaN)
         else f64_add (round64 1) (f64_mul (float64 (wrap64 (playerCount - 2))) (round64 (1 / 10))))
      else round64 1)"

definition CalculatePoints :: "bool \<Rightarrow> int \<Rightarrow> int \<Rightarrow> bool \<Rightarrow> int option" where
  "CalculatePoints fused placement playerCount isTournament =
     (if placement \<noteq> 1 \<and> placement \<noteq> 2 \<and> placement \<noteq> 3 then Some 0
      else
        let basePoints = (if placement = 1 then GoldPoints
                          else if placement = 2 then SilverPoints else BronzePoints);
            tournamentMultiplier = (if isTournament then round64 (3 / 2) else round64 1)
        in f64_to_int
             (math_Round
                (f64_mul (f64_mul (float64 basePoints) (playerMultiplier fused playerCount))
                   tournamentMultiplier)))"

definition CalculateNewRating :: "int \<Rightarrow> int \<Rightarrow> int" where
  "CalculateNewRating currentRating pointsEarned =
     (let newRating = wrap64 (currentRating + pointsEarned)
      in if newRating > 1200 then 1200 else if newRating < 0 then 0 else newRating)"

text \<open>
  The points as the specification gives them: 30, 15 or 5 by placement and 0 for any
  other placement, times 1 + 0.1 for each player beyond two, times 1.5 in a tournament,
  in exact arithmetic, rounded to the nearest integer with halves upwards.
\<close>

definition points_spec :: "int \<Rightarrow> int \<Rightarrow> bool \<Rightarrow> int" where
  "points_spec placement playerCount isTournament =
     (let base = (if placement = 1 then 30 else if placement = 2 then 15
                  else if placement = 3 then 5 else 0);
          scaled = rat_of_int base *
                   (if playerCount > 2 then 1 + 1 / 10 * of_int (playerCount - 2) else 1) *
                   (if isTournament then 3 / 2 else 1)
      in \<lfloor>scaled + 1 / 2\<rfloor>)"

text \<open>
  \<open>CalculatePoints\<close> agrees with \<open>points_spec\<close> for \<open>n\<close> players, at each of the three
  placements, in a tournament and outside one.
\<close>

definition points_row :: "bool \<Rightarrow> int \<Rightarrow> bool" where
  "points_row fused n =
     (CalculatePoints fused 1 n False = Some (points_spec 1 n False) \<and>
      CalculatePoints fused 1 n True = Some (points_spec 1 n True) \<and>
      CalculatePoints fused 2 n False = Some (points_spec 2 n False) \<and>
      CalculatePoints fused 2 n True = Some (points_spec 2 n True) \<and>
      CalculatePoints fused 3 n False = Some (points_spec 3 n False) \<and>
      CalculatePoints fused 3 n True = Some (points_spec 3 n True))"

section \<open>Fixtures\<close>

subsection \<open>The fixtures of game\_test.go\<close>

text \<open>
  The word and the engine that \<^verbatim>\<open>game_test.go\<close> sets up: the word \<^verbatim>\<open>TESTING\<close> with
  its definition, every other field at its zero value, and an engine holding it whose
  turn started at the instant \<open>started\<close>.
\<close>

definition testWord :: Word where
  "testWord =
     \<lparr>Word_ID = [], Word_Word = ''TESTING'', Definition = ''A test word'',
      ExampleSentence = [], Etymology = [], PartOfSpeech = [], Pronunciation = [],
      AudioURL = [], Word_CreatedAt = 0, Word_UpdatedAt = 0\<rparr>"

definition testEngine :: "time \<Rightarrow> GameEngine" where
  "testEngine started =
     (NewGameEngine ''test-game'')\<lparr>CurrentWord := Some testWord, TurnStartedAt := Some started\<rparr>"

text \<open>
  A dictionary service to run the engine with: its \<^verbatim>\<open>GetHint\<close> is the repository's, its
  \<^verbatim>\<open>GetWordInfo\<close> answers the word \<^verbatim>\<open>TESTING\<close> with the test word and fails on any
  other, and it generates no audio.
\<close>

definition testDict :: DictionaryService where
  "testDict =
     \<lparr>dictGetWordInfo =
        (\<lambda>word. if word = ''TESTING'' then Inr (Some testWord)
                else Inl (New (''word not found: '' @ word))),
      dictGenerateAudio = (\<lambda>text. Inl (New ''failed to generate audio'')),
      dictGetHint = dictionaryService_GetHint\<rparr>"

definition fourHints :: "(DictionaryService \<times> engine_op) list" where
  "fourHints =
     [(testDict, OpStartTurn ''TESTING'' 0),
      (testDict, OpGetHint HintTypeDefinition),
      (testDict, OpGetHint HintTypeEtymology),
      (testDict, OpGetHint HintTypePronunciation),
      (testDict, OpGetHint HintTypePartOfSpeech)]"

subsection \<open>A service to run the examples on\<close>

text \<open>
  The fixtures follow \<^verbatim>\<open>service_test.go\<close>: a game with \<^verbatim>\<open>MinPlayers: 2\<close> and
  \<^verbatim>\<open>MaxPlayers: 4\<close>, here waiting with one player on its roster, and the same game
  active with two players, the turn being the first player's. \<open>testDatabase game\<close> is a
  database holding that one game: it gives a connection, answers a statement that names
  the game with the row as the statement leaves it, rejects the statement of a correct
  attempt, whose arguments do not match its placeholders, and rejects the insertion of
  a second game under the same identifier. Its driver has no check of the arguments of
  its own. The word service answers with the test word, as the mock of the tests does.
\<close>

definition player :: "string \<Rightarrow> Player" where
  "player pid =
     \<lparr>Player_ID = pid, Player_GameID = ''game-1'', UserID = pid, Score = 0,
      Player_Status = ''active'', IsBot = False, Attempts = 0, Correct = 0, JoinedAt = 0\<rparr>"

definition waitingGame :: Game where
  "waitingGame =
     zeroGame\<lparr>Game_ID := ''game-1'', Game_Type := GameTypeMulti, Status := GameStatusWaiting,
               Settings := zeroSettings\<lparr>MinPlayers := 2, MaxPlayers := 4\<rparr>,
               Players := [player ''player-1'']\<rparr>"

definition activeGame :: Game where
  "activeGame =
     waitingGame\<lparr>Status := GameStatusActive, CurrentTurn := Some ''player-1'',
                  CurrentPlayer := ''player-1'',
                  Players := [player ''player-1'', player ''player-2'']\<rparr>"

definition testDatabase :: "Game \<Rightarrow> Database" where
  "testDatabase game =
     \<lparr>dbConn = None, CheckNamedValue = None,
      dbScanID =
        (\<lambda>stmt. case stmt of
                  InsertGame gid host ty st settings created updated \<Rightarrow>
                    if gid = Game_ID game then Inl (New ''duplicate key'') else Inr gid
                | _ \<Rightarrow> Inl ErrNoRows),
      dbGetGame =
        (\<lambda>stmt. case stmt of
                  SelectGame gid \<Rightarrow> if gid = Game_ID game then Inr game else Inl ErrNoRows
                | UpdateGameStart st wid updated started masked gid \<Rightarrow>
                    if gid = Game_ID game then
                      Inr (game\<lparr>Status := st, UpdatedAt := updated,
                                Game_TurnStartedAt := Some started, Game_WordMasked := masked\<rparr>)
                    else Inl ErrNoRows
                | UpdateGameTouch updated gid \<Rightarrow>
                    if gid = Game_ID game then Inr (game\<lparr>UpdatedAt := updated\<rparr>)
                    else Inl ErrNoRows
                | _ \<Rightarrow> Inl (New ''statement requires 4 parameters, got 3'')),
      sent = []\<rparr>"

definition testWordService :: WordService where
  "testWordService = \<lparr>GetRandomWord = (\<lambda>level category. Inr (Some testWord))\<rparr>"

definition testService :: "Game \<Rightarrow> (string \<rightharpoonup> GameEngine) \<Rightarrow> gameService" where
  "testService game engines =
     \<lparr>db = testDatabase game, wordService = testWordService, dictService = testDict,
      eventChan = [], activeGames = engines\<rparr>"

text \<open>The attempt that the handler builds from a text, and the settings of a request.\<close>

definition textAttempt :: "string \<Rightarrow> SpellingAttempt" where
  "textAttempt t =
     \<lparr>Attempt_ID = [], Attempt_GameID = [], Attempt_PlayerID = [], Attempt_Word = [],
      Attempt_Type = AttemptTypeText, VoiceData = [], Text = t, IsCorrect = False,
      Timestamp = 0\<rparr>"



text \<open>Strings of ASCII bytes, and the lower-case letter of an ASCII capital.\<close>

definition ascii :: "string \<Rightarrow> bool" where
  "ascii s = list_all (\<lambda>c. byte c < RuneSelf) s"

definition lower :: "char \<Rightarrow> char" where
  "lower c = (if 65 \<le> byte c \<and> byte c \<le> 90 then char_of (byte c + 32) else c)"

section \<open>Properties of the engine\<close>

lemmas HintType_defs =
  HintTypeDefinition_def HintTypeExampleSentence_def HintTypeEtymology_def
  HintTypeSentence_def HintTypePartOfSpeech_def HintTypePronunciation_def
  HintTypePhonetic_def HintTypeSynonym_def

lemma apply_op_HintsUsed:
  assumes "0 \<le> HintsUsed g" and "HintsUsed g \<le> MaxHints"
  shows "0 \<le> HintsUsed (apply_op dict oper g) \<and> HintsUsed (apply_op dict oper g) \<le> MaxHints"
proof (cases oper)
  case (OpGetHint hintType)
  with assms show ?thesis
    by (auto simp: GetHint_def split: option.splits sum.splits)
next
  case (OpStartNewTurn now)
  with assms show ?thesis
    by (auto simp: StartNewTurn_def MaxHints_def split: sum.splits)
next
  case (OpStartTurn word now)
  with assms show ?thesis
    by (auto simp: StartTurn_def MaxHints_def split: sum.splits)
qed (use assms in \<open>auto simp: RevealWord_def UnmaskWord_def split: option.splits\<close>)

lemma run_HintsUsed:
  assumes "0 \<le> HintsUsed g" and "HintsUsed g \<le> MaxHints" and "g' \<in> set (run steps g)"
  shows "0 \<le> HintsUsed g' \<and> HintsUsed g' \<le> MaxHints"
  using assms
proof (induction steps arbitrary: g)
  case Nil
  then show ?case by simp
next
  case (Cons step steps)
  obtain dict oper where step: "step = (dict, oper)" by (cases step)
  from Cons.prems(3) step
  consider "g' = g" | "g' \<in> set (run steps (apply_op dict oper g))" by auto
  then show ?case
  proof cases
    case 1
    with Cons.prems show ?thesis by simp
  next
    case 2
    from apply_op_HintsUsed [OF Cons.prems(1,2)]
    have "0 \<le> HintsUsed (apply_op dict oper g)" "HintsUsed (apply_op dict oper g) \<le> MaxHints"
      by simp_all
    from Cons.IH [OF this 2] show ?thesis .
  qed
qed

lemma GetHint_ok_HintsUsed:
  assumes "GetHint dict g hintType = (Inr hint, g')"
  shows "HintsUsed g' = HintsUsed g + 1 \<and> CurrentWord g' = CurrentWord g"
  using assms
  by (auto simp: GetHint_def split: option.splits sum.splits if_splits)

text \<open>
  Claim C6. Whatever the engine's state before the call, a call of \<open>StartTurn\<close> in which
  the dictionary service returns a word without an error returns no error and leaves
  the engine with that word as its current word, the word masked, no hint used, the
  turn started at the instant read from the clock, and its identifier as before.
\<close>

theorem StartTurn_success:
  assumes "dictGetWordInfo dict word = Inr wordInfo"
  shows "StartTurn dict now g word =
           (None, \<lparr>ID = ID g, CurrentWord = wordInfo, WordMasked = True, HintsUsed = 0,
                   TurnStartedAt = Some now\<rparr>)"
  using assms by (simp add: StartTurn_def)

theorem StartTurn_success_witness:
  "StartTurn testDict 42 ((testEngine 7)\<lparr>HintsUsed := 3, WordMasked := False\<rparr>) ''TESTING'' =
     (None, \<lparr>ID = ''test-game'', CurrentWord = Some testWord, WordMasked = True,
             HintsUsed = 0, TurnStartedAt = Some 42\<rparr>)"
proof -
  have "dictGetWordInfo testDict ''TESTING'' = Inr (Some testWord)"
    by (simp add: testDict_def)
  from StartTurn_success [OF this, of 42 "(testEngine 7)\<lparr>HintsUsed := 3, WordMasked := False\<rparr>"]
  show ?thesis by (simp add: testEngine_def NewGameEngine_def)
qed

text \<open>
  Claim C10. In an engine with a current word and fewer than \<open>MaxHints\<close> hints used, a
  call of \<open>GetHint\<close> in which the dictionary service returns an error returns that
  error, wrapped, and leaves the engine as it was. In any engine, a call of \<open>GetHint\<close>
  that returns an error leaves the engine as it was, and a call that returns a hint
  adds one to the hints used and changes nothing else.
\<close>

theorem GetHint_dict_error:
  assumes "CurrentWord g = Some w" and "HintsUsed g < MaxHints"
    and "dictGetHint dict w hintType = Inl err"
  shows "GetHint dict g hintType = (Inl (Wrap ''failed to get hint'' err), g) \<and>
         (case GetHint dict' g' hintType' of
            (Inl e, g'') \<Rightarrow> g'' = g'
          | (Inr hint, g'') \<Rightarrow> g'' = g'\<lparr>HintsUsed := HintsUsed g' + 1\<rparr>)"
proof
  from assms show "GetHint dict g hintType = (Inl (Wrap ''failed to get hint'' err), g)"
    by (simp add: GetHint_def)
next
  show "case GetHint dict' g' hintType' of
          (Inl e, g'') \<Rightarrow> g'' = g'
        | (Inr hint, g'') \<Rightarrow> g'' = g'\<lparr>HintsUsed := HintsUsed g' + 1\<rparr>"
    by (simp add: GetHint_def split: option.split sum.split)
qed

theorem GetHint_dict_error_witness:
  "GetHint testDict (testEngine 0) HintTypeExampleSentence =
     (Inl (Wrap ''failed to get hint'' (New ''invalid hint type: example_sentence'')),
      testEngine 0)"
proof -
  have w: "CurrentWord (testEngine 0) = Some testWord"
    by (simp add: testEngine_def)
  have h: "HintsUsed (testEngine 0) < MaxHints"
    by (simp add: testEngine_def NewGameEngine_def MaxHints_def)
  have d: "dictGetHint testDict testWord HintTypeExampleSentence =
             Inl (New ''invalid hint type: example_sentence'')"
    by (simp add: testDict_def dictionaryService_GetHint_def HintType_defs)
  from GetHint_dict_error [OF w h d] show ?thesis by simp
qed

text \<open>
  Claim C2. In every state that an engine built by \<open>NewGameEngine\<close> passes through
  under any sequence of calls of its methods, with any answers of the dictionary
  service, the number of hints used is at least 0 and at most \<open>MaxHints\<close>, which is 3. In
  particular, when three calls of \<open>GetHint\<close> in a turn that began with no hint used have
  each returned a hint, a fourth call returns \<open>ErrMaxHintsUsed\<close> and leaves the engine
  as it was, with 3 hints used.
\<close>

theorem HintsUsed_bounded:
  "(\<forall>g \<in> set (run steps (NewGameEngine gid)). 0 \<le> HintsUsed g \<and> HintsUsed g \<le> MaxHints) \<and>
   MaxHints = 3 \<and>
   (HintsUsed g0 = 0 \<longrightarrow>
    GetHint d1 g0 t1 = (Inr h1, g1) \<longrightarrow>
    GetHint d2 g1 t2 = (Inr h2, g2) \<longrightarrow>
    GetHint d3 g2 t3 = (Inr h3, g3) \<longrightarrow>
    GetHint d4 g3 t4 = (Inl ErrMaxHintsUsed, g3) \<and> HintsUsed g3 = 3)"
proof (intro conjI ballI impI)
  fix g assume "g \<in> set (run steps (NewGameEngine gid))"
  moreover have "0 \<le> HintsUsed (NewGameEngine gid)" "HintsUsed (NewGameEngine gid) \<le> MaxHints"
    by (simp_all add: NewGameEngine_def MaxHints_def)
  ultimately have "0 \<le> HintsUsed g \<and> HintsUsed g \<le> MaxHints"
    using run_HintsUsed by blast
  then show "0 \<le> HintsUsed g" and "HintsUsed g \<le> MaxHints" by simp_all
next
  show "MaxHints = 3" by (simp add: MaxHints_def)
next
  assume zero: "HintsUsed g0 = 0"
    and a1: "GetHint d1 g0 t1 = (Inr h1, g1)"
    and a2: "GetHint d2 g1 t2 = (Inr h2, g2)"
    and a3: "GetHint d3 g2 t3 = (Inr h3, g3)"
  from GetHint_ok_HintsUsed [OF a1] GetHint_ok_HintsUsed [OF a2] GetHint_ok_HintsUsed [OF a3] zero
  have used: "HintsUsed g3 = 3" and word: "CurrentWord g3 = CurrentWord g0" by simp_all
  from a1 obtain w where "CurrentWord g0 = Some w"
    by (auto simp: GetHint_def split: option.splits)
  with word have "CurrentWord g3 = Some w" by simp
  with used show "GetHint d4 g3 t4 = (Inl ErrMaxHintsUsed, g3)"
    by (simp add: GetHint_def MaxHints_def)
  from used show "HintsUsed g3 = 3" .
qed

theorem HintsUsed_bounded_witness:
  "map HintsUsed (run fourHints (NewGameEngine ''test-game'')) = [0, 0, 1, 2, 3, 3] \<and>
   HintsUsed (last (run fourHints (NewGameEngine ''test-game''))) \<le> 3 \<and>
   GetHint testDict ((testEngine 0)\<lparr>WordMasked := True, HintsUsed := 3\<rparr>) HintTypePartOfSpeech =
     (Inl ErrMaxHintsUsed, (testEngine 0)\<lparr>WordMasked := True, HintsUsed := 3\<rparr>)"
proof -
  let ?g0 = "(testEngine 0)\<lparr>WordMasked := True\<rparr>"
  let ?g1 = "?g0\<lparr>HintsUsed := 1\<rparr>"
  let ?g2 = "?g0\<lparr>HintsUsed := 2\<rparr>"
  let ?g3 = "?g0\<lparr>HintsUsed := 3\<rparr>"
  note inst = HintsUsed_bounded [of fourHints "''test-game''" ?g0
      testDict HintTypeDefinition "''A test word''" ?g1
      testDict HintTypeEtymology "[]" ?g2
      testDict HintTypePronunciation "[]" ?g3
      testDict HintTypePartOfSpeech]
  have eval: "map HintsUsed (run fourHints (NewGameEngine ''test-game'')) = [0, 0, 1, 2, 3, 3]"
    by (simp add: fourHints_def NewGameEngine_def StartTurn_def GetHint_def testDict_def
        testWord_def dictionaryService_GetHint_def HintType_defs MaxHints_def)
  have "last (run fourHints (NewGameEngine ''test-game'')) \<in> set (run fourHints (NewGameEngine ''test-game''))"
    by (simp add: fourHints_def)
  with inst have bound: "HintsUsed (last (run fourHints (NewGameEngine ''test-game''))) \<le> 3"
    by auto
  have "HintsUsed ?g0 = 0"
    by (simp add: testEngine_def NewGameEngine_def)
  moreover have "GetHint testDict ?g0 HintTypeDefinition = (Inr ''A test word'', ?g1)"
    by (simp add: GetHint_def testEngine_def NewGameEngine_def testDict_def testWord_def
        dictionaryService_GetHint_def HintType_defs MaxHints_def)
  moreover have "GetHint testDict ?g1 HintTypeEtymology = (Inr [], ?g2)"
    by (simp add: GetHint_def testEngine_def NewGameEngine_def testDict_def testWord_def
        dictionaryService_GetHint_def HintType_defs MaxHints_def)
  moreover have "GetHint testDict ?g2 HintTypePronunciation = (Inr [], ?g3)"
    by (simp add: GetHint_def testEngine_def NewGameEngine_def testDict_def testWord_def
        dictionaryService_GetHint_def HintType_defs MaxHints_def)
  ultimately have "GetHint testDict ?g3 HintTypePartOfSpeech = (Inl ErrMaxHintsUsed, ?g3)"
    using inst by blast
  with eval bound show ?thesis by simp
qed

section \<open>Comparison of an attempt with the word\<close>

lemma lower_eq_iff:
  assumes "byte a < 128" and "byte b < 128" and "a \<noteq> b"
  shows "lower a = lower b \<longleftrightarrow>
           65 \<le> min (byte a) (byte b) \<and> min (byte a) (byte b) \<le> 90 \<and>
           max (byte a) (byte b) = min (byte a) (byte b) + 32"
proof -
  have ne: "byte a \<noteq> byte b"
    using assms(3) by (simp add: byte_def)
  have of_char: "byte (char_of n) = n" if "n < 256" for n :: nat
    using that by (simp add: byte_def)
  have inj: "x = y" if "byte x = byte y" for x y
    using that by (simp add: byte_def)
  show ?thesis
  proof
    assume "lower a = lower b"
    then have "byte (lower a) = byte (lower b)" by simp
    with assms ne
    show "65 \<le> min (byte a) (byte b) \<and> min (byte a) (byte b) \<le> 90 \<and>
          max (byte a) (byte b) = min (byte a) (byte b) + 32"
      by (auto simp: lower_def of_char min_def max_def split: if_splits)
  next
    assume "65 \<le> min (byte a) (byte b) \<and> min (byte a) (byte b) \<le> 90 \<and>
            max (byte a) (byte b) = min (byte a) (byte b) + 32"
    with assms ne have "byte (lower a) = byte (lower b)"
      by (auto simp: lower_def of_char min_def max_def split: if_splits)
    then show "lower a = lower b" by (rule inj)
  qed
qed

text \<open>
  On strings of ASCII bytes \<open>EqualFold\<close> compares the strings with their capitals made
  lower case, byte by byte; no byte is dropped.
\<close>

lemma EqualFold_ascii:
  assumes "ascii s" and "ascii t"
  shows "EqualFold U s t \<longleftrightarrow> map lower s = map lower t"
  using assms
proof (induction U s t rule: EqualFold.induct)
  case (4 U sr s tr t)
  then have b: "byte sr < 128" "byte tr < 128" and r: "ascii s" "ascii t"
    by (simp_all add: ascii_def RuneSelf_def)
  show ?case
  proof (cases "tr = sr")
    case True
    with 4 b r show ?thesis by (simp add: RuneSelf_def)
  next
    case False
    then have "sr \<noteq> tr" by simp
    from lower_eq_iff [OF b this] 4 b r False show ?thesis
      by (auto simp: RuneSelf_def Let_def)
  qed
qed (simp_all add: ascii_def)

lemma ValidateAttempt_ascii:
  assumes "CurrentWord g = Some w" and "TurnStartedAt g = Some started"
    and "now - started \<le> TurnTimeout" and "ascii attempt" and "ascii (Word_Word w)"
  shows "ValidateAttempt U now g attempt = Inr (map lower attempt = map lower (Word_Word w))"
  using assms by (simp add: ValidateAttempt_def EqualFold_ascii)

lemma testEngine_simps:
  "CurrentWord (testEngine t) = Some testWord" "TurnStartedAt (testEngine t) = Some t"
  "HintsUsed (testEngine t) = 0" "Word_Word testWord = ''TESTING''"
  "Definition testWord = ''A test word''" "Word_ID testWord = []"
  by (simp_all add: testEngine_def NewGameEngine_def testWord_def)

text \<open>
  Claim C1, at the attempts it names. The engine of \<^verbatim>\<open>game_test.go\<close> holds the word
  \<^verbatim>\<open>TESTING\<close>; its turn started at 0 and the clock reads 5, so the turn is open and not
  timed out. \<open>ValidateAttempt\<close> accepts \<^verbatim>\<open>testing\<close> and \<^verbatim>\<open>Testing\<close> and rejects the
  attempt \<^verbatim>\<open>TESTING\<close> with a space before and after it, which \<open>ValidateSpelling\<close> of the
  word service accepts.
\<close>

theorem ValidateAttempt_keeps_whitespace:
  "ValidateAttempt U 5 (testEngine 0) ''testing'' = Inr True \<and>
   ValidateAttempt U 5 (testEngine 0) ''Testing'' = Inr True \<and>
   ValidateAttempt U 5 (testEngine 0) '' TESTING '' = Inr False \<and>
   ValidateSpelling U ''TESTING'' '' TESTING '' = True"
proof (intro conjI)
  show "ValidateAttempt U 5 (testEngine 0) ''testing'' = Inr True"
    by (simp add: ValidateAttempt_def testEngine_simps TurnTimeout_def Second_def RuneSelf_def byte_def)
  show "ValidateAttempt U 5 (testEngine 0) ''Testing'' = Inr True"
    by (simp add: ValidateAttempt_def testEngine_simps TurnTimeout_def Second_def RuneSelf_def byte_def)
  show "ValidateAttempt U 5 (testEngine 0) '' TESTING '' = Inr False"
    by (simp add: ValidateAttempt_def testEngine_simps TurnTimeout_def Second_def RuneSelf_def byte_def)
  show "ValidateSpelling U ''TESTING'' '' TESTING '' = True"
    by (simp add: ValidateSpelling_def RuneSelf_def byte_def asciiSpace_def)
qed

section \<open>Properties of the game service\<close>

lemma testDatabase_simps:
  "dbConn (testDatabase g) = None" "CheckNamedValue (testDatabase g) = None"
  "dbGetGame (testDatabase g) (SelectGame gid) = (if gid = Game_ID g then Inr g else Inl ErrNoRows)"
  "dbGetGame (testDatabase g) (UpdateGameStart st wid updated started masked gid) =
     (if gid = Game_ID g then
        Inr (g\<lparr>Status := st, UpdatedAt := updated, Game_TurnStartedAt := Some started,
               Game_WordMasked := masked\<rparr>)
      else Inl ErrNoRows)"
  "dbGetGame (testDatabase g) (UpdateGameTouch updated gid) =
     (if gid = Game_ID g then Inr (g\<lparr>UpdatedAt := updated\<rparr>) else Inl ErrNoRows)"
  "dbGetGame (testDatabase g) (UpdateGameScore now pid gid) =
     Inl (New ''statement requires 4 parameters, got 3'')"
  "dbScanID (testDatabase g) (InsertGame gid host ty st settings created updated) =
     (if gid = Game_ID g then Inl (New ''duplicate key'') else Inr gid)"
  "sent (testDatabase g) = []"
  by (simp_all add: testDatabase_def)

lemma testDict_simps:
  "dictGetWordInfo testDict word =
     (if word = ''TESTING'' then Inr (Some testWord) else Inl (New (''word not found: '' @ word)))"
  "dictGetHint testDict = dictionaryService_GetHint"
  by (simp_all add: testDict_def)

lemma waitingGame_simps:
  "Game_ID waitingGame = ''game-1''" "Status waitingGame = GameStatusWaiting"
  "Players waitingGame = [player ''player-1'']"
  "Settings waitingGame = zeroSettings\<lparr>MinPlayers := 2, MaxPlayers := 4\<rparr>"
  by (simp_all add: waitingGame_def zeroGame_def)

lemma activeGame_simps:
  "Game_ID activeGame = ''game-1''" "Status activeGame = GameStatusActive"
  "CurrentTurn activeGame = Some ''player-1''" "CurrentPlayer activeGame = ''player-1''"
  by (simp_all add: waitingGame_def activeGame_def zeroGame_def)

text \<open>
  The conversion of the arguments by a driver that has no check of its own, or whose
  check leaves every argument to \<^verbatim>\<open>database/sql\<close>: every statement of the service passes
  but the insertion of a game, which is refused at its fifth argument, the settings.
\<close>

lemma checkArg_default:
  assumes "CheckNamedValue d = None \<or> CheckNamedValue d = Some (\<lambda>a. Some ErrSkip)"
  shows "checkArg d a = ConvertValue a"
  using assms by (auto simp: checkArg_def)



lemmas test_simps =
  testDatabase_simps testDict_simps testEngine_simps testService_def testWordService_def
  query_def checkArg_default Let_def

text \<open>
  Starting a game. Nothing in \<open>StartGame\<close> reads the roster or \<open>MinPlayers\<close>: a waiting
  game starts whenever the word service, the dictionary service and the database
  answer and the event can be sent.
\<close>

lemma StartGame_succeeds:
  assumes "GetGame s gameID = Inr game" and "Status game = GameStatusWaiting"
    and "GetRandomWord (wordService s) (WordLevel (Settings game)) (Category (Settings game)) =
           Inr (Some word)"
    and "dictGetWordInfo (dictService s) (Word_Word word) = Inr wordInfo"
    and "query (db s) (UpdateGameStart GameStatusActive (Word_ID word) now now True gameID) = None"
    and "dbGetGame (db s) (UpdateGameStart GameStatusActive (Word_ID word) now now True gameID) =
           Inr game1"
    and "length (eventChan s) < eventChanCap"
  shows "map_option fst (StartGame startedAt now emittedAt s gameID userID) = Some (Inr game1)"
  using assms
  by (simp add: StartGame_def StartTurn_def emitEvent_def exec_def Let_def)

text \<open>
  Claim C3, at the input it names: a waiting game with a roster of 1 and \<open>MinPlayers = 2\<close>.
  \<open>StartGame\<close> returns no error. It starts the engine's turn, sends the database the
  statement that sets the status to \<open>GameStatusActive\<close>, returns the game as the database
  answers, which is active, and sends the event \<open>EventTypeGameStarted\<close>. The clock reads
  1000, 1001 and 1002.
\<close>

theorem StartGame_below_MinPlayers:
  "int (length (Players waitingGame)) = 1 \<and> MinPlayers (Settings waitingGame) = 2 \<and>
   Status waitingGame = GameStatusWaiting \<and>
   StartGame 1000 1001 1002 (testService waitingGame Map.empty) ''game-1'' ''player-1'' =
     Some (Inr (waitingGame\<lparr>Status := GameStatusActive, UpdatedAt := 1001,
                             Game_TurnStartedAt := Some 1001, Game_WordMasked := True\<rparr>),
           (testService waitingGame
              [''game-1'' \<mapsto> (NewGameEngine ''game-1'')
                 \<lparr>CurrentWord := Some testWord, WordMasked := True, TurnStartedAt := Some 1000\<rparr>])
             \<lparr>db := (testDatabase waitingGame)
                \<lparr>sent := [UpdateGameStart GameStatusActive [] 1001 1001 True ''game-1'']\<rparr>,
              eventChan :=
                [\<lparr>Event_Type = EventTypeGameStarted, Event_GameID = ''game-1'',
                  Event_PlayerID = None, Event_Timestamp = 1002,
                  Payload =
                    [(''game'', PGame (waitingGame\<lparr>Status := GameStatusActive, UpdatedAt := 1001,
                                         Game_TurnStartedAt := Some 1001, Game_WordMasked := True\<rparr>)),
                     (''word'', PWord testWord)]\<rparr>]\<rparr>)"
  by (simp add: StartGame_def GetGame_def StartTurn_def emitEvent_def exec_def test_simps
      waitingGame_simps eventChanCap_def zeroSettings_def NewGameEngine_def)

text \<open>
  Attempts and hints of a player whose turn it is not. The service's \<open>GetHint\<close> uses the
  player's identifier for the event only.
\<close>

lemma gameService_GetHint_any_player:
  "map_option fst (gameService_GetHint now emittedAt s gameID p) =
   map_option fst (gameService_GetHint now emittedAt s gameID q)"
  by (simp add: gameService_GetHint_def emitEvent_def Let_def
      split: sum.split option.split prod.split)

text \<open>
  Claim C7, in an active game of two players whose turn is \<^verbatim>\<open>player-1\<close>'s, for calls
  made as \<^verbatim>\<open>player-2\<close>. \<open>gameService_GetHint\<close> returns a hint, counts it in the engine and
  sends the event. \<open>MakeAttempt\<close> with a wrong spelling returns no error, sends the
  database the statement of an incorrect attempt and sends the event
  \<open>EventTypeAttemptFailed\<close>. \<open>MakeAttempt\<close> with the right spelling sends the database the
  statement that raises the score of \<^verbatim>\<open>player-2\<close>. The clock reads 1000, 1001 and 1002.
\<close>

theorem other_player_not_refused:
  "CurrentTurn activeGame = Some ''player-1'' \<and> CurrentPlayer activeGame = ''player-1'' \<and>
   gameService_GetHint 1000 1001 (testService activeGame [''game-1'' \<mapsto> testEngine 0])
       ''game-1'' ''player-2'' =
     Some (Inr \<lparr>Hint_Type = HintTypeDefinition, Content = ''A test word''\<rparr>,
           (testService activeGame [''game-1'' \<mapsto> (testEngine 0)\<lparr>HintsUsed := 1\<rparr>])
             \<lparr>eventChan :=
                [\<lparr>Event_Type = EventTypeHintRequested, Event_GameID = ''game-1'',
                  Event_PlayerID = Some ''player-2'', Event_Timestamp = 1001,
                  Payload =
                    [(''hint'', PHint \<lparr>Hint_Type = HintTypeDefinition,
                                       Content = ''A test word''\<rparr>)]\<rparr>]\<rparr>) \<and>
   MakeAttempt U 1000 1001 1002 (testService activeGame [''game-1'' \<mapsto> testEngine 0])
       ''game-1'' ''player-2'' (textAttempt ''TESTIGN'') =
     Some (None,
           (testService activeGame [''game-1'' \<mapsto> testEngine 0])
             \<lparr>db := (testDatabase activeGame)\<lparr>sent := [UpdateGameTouch 1001 ''game-1'']\<rparr>,
              eventChan :=
                [\<lparr>Event_Type = EventTypeAttemptFailed, Event_GameID = ''game-1'',
                  Event_PlayerID = Some ''player-2'', Event_Timestamp = 1002,
                  Payload =
                    [(''attempt'', PAttempt (textAttempt ''TESTIGN'')),
                     (''correct'', PBool False)]\<rparr>]\<rparr>) \<and>
   MakeAttempt U 1000 1001 1002 (testService activeGame [''game-1'' \<mapsto> testEngine 0])
       ''game-1'' ''player-2'' (textAttempt ''testing'') =
     Some (Some (Wrap ''failed to update game'' (New ''statement requires 4 parameters, got 3'')),
           (testService activeGame [''game-1'' \<mapsto> testEngine 0])
             \<lparr>db := (testDatabase activeGame)
                \<lparr>sent := [UpdateGameScore 1001 ''player-2'' ''game-1'']\<rparr>\<rparr>)"
proof (intro conjI)
  show "gameService_GetHint 1000 1001 (testService activeGame [''game-1'' \<mapsto> testEngine 0])
          ''game-1'' ''player-2'' =
        Some (Inr \<lparr>Hint_Type = HintTypeDefinition, Content = ''A test word''\<rparr>,
              (testService activeGame [''game-1'' \<mapsto> (testEngine 0)\<lparr>HintsUsed := 1\<rparr>])
                \<lparr>eventChan :=
                   [\<lparr>Event_Type = EventTypeHintRequested, Event_GameID = ''game-1'',
                     Event_PlayerID = Some ''player-2'', Event_Timestamp = 1001,
                     Payload =
                       [(''hint'', PHint \<lparr>Hint_Type = HintTypeDefinition,
                                          Content = ''A test word''\<rparr>)]\<rparr>]\<rparr>)"
    by (simp add: gameService_GetHint_def GetGame_def GetHint_def emitEvent_def go_rem_def
        hintTypes_def dictionaryService_GetHint_def test_simps activeGame_simps eventChanCap_def
        MaxHints_def)
  show "MakeAttempt U 1000 1001 1002 (testService activeGame [''game-1'' \<mapsto> testEngine 0])
          ''game-1'' ''player-2'' (textAttempt ''TESTIGN'') =
        Some (None,
              (testService activeGame [''game-1'' \<mapsto> testEngine 0])
                \<lparr>db := (testDatabase activeGame)\<lparr>sent := [UpdateGameTouch 1001 ''game-1'']\<rparr>,
                 eventChan :=
                   [\<lparr>Event_Type = EventTypeAttemptFailed, Event_GameID = ''game-1'',
                     Event_PlayerID = Some ''player-2'', Event_Timestamp = 1002,
                     Payload =
                       [(''attempt'', PAttempt (textAttempt ''TESTIGN'')),
                        (''correct'', PBool False)]\<rparr>]\<rparr>)"
    by (simp add: MakeAttempt_def GetGame_def ValidateAttempt_def emitEvent_def exec_def
        test_simps activeGame_simps textAttempt_def eventChanCap_def TurnTimeout_def Second_def
        RuneSelf_def byte_def)
  show "MakeAttempt U 1000 1001 1002 (testService activeGame [''game-1'' \<mapsto> testEngine 0])
          ''game-1'' ''player-2'' (textAttempt ''testing'') =
        Some (Some (Wrap ''failed to update game'' (New ''statement requires 4 parameters, got 3'')),
              (testService activeGame [''game-1'' \<mapsto> testEngine 0])
                \<lparr>db := (testDatabase activeGame)
                   \<lparr>sent := [UpdateGameScore 1001 ''player-2'' ''game-1'']\<rparr>\<rparr>)"
    by (simp add: MakeAttempt_def GetGame_def ValidateAttempt_def emitEvent_def exec_def
        test_simps activeGame_simps textAttempt_def eventChanCap_def TurnTimeout_def Second_def
        RuneSelf_def byte_def)
qed (simp_all add: activeGame_simps)




section \<open>Rounding to float64\<close>

lemma pow2_pos: "0 < pow2 e"
  by (simp add: pow2_def)

lemma pow2_add: "pow2 (a + b) = pow2 a * pow2 b"
  by (simp add: pow2_def power_int_add)

lemma pow2_mono: "a \<le> b \<Longrightarrow> pow2 a \<le> pow2 b"
  by (simp add: pow2_def power_int_increasing)

lemma pow2_less: "a < b \<Longrightarrow> pow2 a < pow2 b"
  by (simp add: pow2_def power_int_strict_increasing)

lemma pow2_nat: "pow2 (int k) = 2 ^ k"
  by (simp add: pow2_def)

lemma pow2_neg_nat: "pow2 (- int k) = 1 / 2 ^ k"
  by (simp add: pow2_def power_int_minus field_simps)

lemma log2floor_bounds:
  "0 < n \<Longrightarrow> 2 ^ log2floor n \<le> n \<and> n < 2 ^ Suc (log2floor n)"
proof (induction n rule: log2floor.induct)
  case (1 n)
  show ?case
  proof (cases "n < 2")
    case True
    with "1.prems" show ?thesis by (simp add: log2floor.simps)
  next
    case False
    then have pos: "0 < n div 2" by simp
    from "1.IH" [OF False pos]
    have lo: "2 ^ log2floor (n div 2) \<le> n div 2"
      and hi: "n div 2 < 2 ^ Suc (log2floor (n div 2))" by simp_all
    have eq: "log2floor n = Suc (log2floor (n div 2))"
      using False by (subst log2floor.simps) simp
    from lo have "2 * 2 ^ log2floor (n div 2) \<le> n" by linarith
    moreover from hi have "n < 2 * 2 ^ Suc (log2floor (n div 2))" by linarith
    ultimately show ?thesis by (simp add: eq)
  qed
qed

lemma ilog2_bounds:
  assumes "0 < x"
  shows "pow2 (ilog2 x) \<le> x \<and> x < pow2 (ilog2 x + 1)"
proof (cases "1 \<le> x")
  case True
  define n where "n = nat \<lfloor>x\<rfloor>"
  define k where "k = log2floor n"
  from True have f1: "1 \<le> \<lfloor>x\<rfloor>" by linarith
  then have "0 \<le> \<lfloor>x\<rfloor>" by linarith
  then have in_eq: "int n = \<lfloor>x\<rfloor>"
    unfolding n_def by (rule nat_0_le)
  with f1 have n: "0 < n" by linarith
  have "rat_of_nat n = of_int (int n)" by simp
  with in_eq have nx: "rat_of_nat n = of_int \<lfloor>x\<rfloor>" by simp
  from nx have lo: "rat_of_nat n \<le> x" and hi: "x < rat_of_nat n + 1"
    by linarith+
  from log2floor_bounds [OF n] have b: "2 ^ k \<le> n" "n + 1 \<le> 2 ^ Suc k"
    by (simp_all add: k_def)
  have e: "ilog2 x = int k"
    using True by (simp add: ilog2_def n_def k_def)
  have "rat_of_nat (2 ^ k) \<le> rat_of_nat n"
    using b(1) by (rule of_nat_mono)
  then have p1: "(2::rat) ^ k \<le> rat_of_nat n" by simp
  have "rat_of_nat (n + 1) \<le> rat_of_nat (2 ^ Suc k)"
    using b(2) by (rule of_nat_mono)
  then have p2: "rat_of_nat n + 1 \<le> 2 ^ Suc k" by simp
  have p3: "pow2 (int k + 1) = 2 ^ Suc k"
    using pow2_nat [of "Suc k"] by (simp add: add.commute)
  have "pow2 (int k) \<le> x"
    unfolding pow2_nat using p1 lo by linarith
  moreover have "x < pow2 (int k + 1)"
    unfolding p3 using p2 hi by linarith
  ultimately show ?thesis by (simp add: e)
next
  case False
  define y where "y = 1 / x"
  define n where "n = nat \<lceil>y\<rceil>"
  define j where "j = Suc (log2floor (n - 1))"
  from False assms have y: "1 < y" and xy: "x = 1 / y"
    by (simp_all add: y_def)
  from y have c: "2 \<le> \<lceil>y\<rceil>" by linarith
  then have "0 \<le> \<lceil>y\<rceil>" by linarith
  then have in_eq: "int n = \<lceil>y\<rceil>"
    unfolding n_def by (rule nat_0_le)
  with c have n: "2 \<le> n" by linarith
  have "rat_of_nat n = of_int (int n)" by simp
  with in_eq have ny: "rat_of_nat n = of_int \<lceil>y\<rceil>" by simp
  from ny have up0: "y \<le> rat_of_nat n" and lo0: "rat_of_nat n - 1 < y"
    by linarith+
  from n have "0 < n - 1" by simp
  from log2floor_bounds [OF this]
  have b0: "2 ^ log2floor (n - 1) \<le> n - 1" "n - 1 < 2 ^ Suc (log2floor (n - 1))"
    by simp_all
  have b1: "2 ^ (j - 1) \<le> n - 1"
    using b0(1) unfolding j_def by simp
  have "n - 1 < 2 ^ j"
    using b0(2) unfolding j_def by simp
  then have b2: "n \<le> 2 ^ j" by linarith
  have e: "ilog2 x = - int j"
    using False n by (simp add: ilog2_def Let_def y_def n_def j_def)
  have "rat_of_nat n \<le> rat_of_nat (2 ^ j)"
    using b2 by (rule of_nat_mono)
  then have "rat_of_nat n \<le> 2 ^ j" by simp
  with up0 have up: "y \<le> 2 ^ j" by linarith
  have "rat_of_nat (2 ^ (j - 1)) \<le> rat_of_nat (n - 1)"
    using b1 by (rule of_nat_mono)
  moreover have "rat_of_nat (n - 1) = rat_of_nat n - 1"
    using n by (simp add: of_nat_diff)
  ultimately have "(2::rat) ^ (j - 1) \<le> rat_of_nat n - 1"
    by simp
  with lo0 have lo: "2 ^ (j - 1) < y" by linarith
  have j: "0 < j" by (simp add: j_def)
  have ypos: "0 < y" using y by linarith
  have "1 / 2 ^ j \<le> 1 / y"
    using up ypos by (intro frac_le) simp_all
  then have r1: "pow2 (- int j) \<le> x"
    by (simp only: pow2_neg_nat xy)
  have "int j = int (j - 1) + 1"
    using j by linarith
  then have "- int j + 1 = - int (j - 1)" by linarith
  then have "pow2 (- int j + 1) = pow2 (- int (j - 1))"
    by (rule arg_cong)
  then have p: "pow2 (- int j + 1) = 1 / 2 ^ (j - 1)"
    by (simp only: pow2_neg_nat)
  have "1 / y < 1 / 2 ^ (j - 1)"
    using lo by (intro frac_less2) simp_all
  then have r2: "x < pow2 (- int j + 1)"
    by (simp only: p xy)
  from r1 r2 show ?thesis by (simp only: e)
qed

lemma ilog2_unique:
  assumes "0 < x" and "pow2 e \<le> x" and "x < pow2 (e + 1)"
  shows "ilog2 x = e"
proof -
  from ilog2_bounds [OF assms(1)]
  have b: "pow2 (ilog2 x) \<le> x" "x < pow2 (ilog2 x + 1)" by simp_all
  have "\<not> e + 1 \<le> ilog2 x"
    using pow2_mono [of "e + 1" "ilog2 x"] b(1) assms(3) by linarith
  moreover have "\<not> ilog2 x + 1 \<le> e"
    using pow2_mono [of "ilog2 x + 1" e] b(2) assms(2) by linarith
  ultimately show ?thesis by linarith
qed

lemma rhe_near:
  assumes "\<bar>y - of_int m\<bar> < 1 / 2"
  shows "round_half_even y = m"
proof -
  from assms have lo: "of_int m - 1 / 2 < y" and hi: "y < of_int m + 1 / 2"
    by linarith+
  have "\<lfloor>y\<rfloor> = m \<or> \<lfloor>y\<rfloor> = m - 1" using lo hi by linarith
  then show ?thesis
  proof
    assume f: "\<lfloor>y\<rfloor> = m"
    with hi have "y - of_int \<lfloor>y\<rfloor> < 1 / 2" by linarith
    with f show ?thesis by (simp add: round_half_even_def Let_def)
  next
    assume f: "\<lfloor>y\<rfloor> = m - 1"
    then have "rat_of_int \<lfloor>y\<rfloor> = of_int m - 1" by simp
    with lo have "1 / 2 < y - of_int \<lfloor>y\<rfloor>" by linarith
    with f show ?thesis by (simp add: round_half_even_def Let_def)
  qed
qed

lemma rhe_of_int: "round_half_even (of_int m) = m"
  by (rule rhe_near) simp

lemma rhe_bounds: "\<lfloor>y\<rfloor> \<le> round_half_even y \<and> round_half_even y \<le> \<lfloor>y\<rfloor> + 1"
  by (simp add: round_half_even_def Let_def)

lemma rhe_ge:
  assumes "of_int m - 1 / 2 < y"
  shows "m \<le> round_half_even y"
proof (cases "m \<le> \<lfloor>y\<rfloor>")
  case True
  with rhe_bounds [of y] show ?thesis by linarith
next
  case False
  with assms have f: "\<lfloor>y\<rfloor> = m - 1" by linarith
  then have "rat_of_int \<lfloor>y\<rfloor> = of_int m - 1" by simp
  with assms have "1 / 2 < y - of_int \<lfloor>y\<rfloor>" by linarith
  with f show ?thesis by (simp add: round_half_even_def Let_def)
qed

lemma rhe_le:
  assumes "y < of_int m + 1 / 2"
  shows "round_half_even y \<le> m"
proof (cases "\<lfloor>y\<rfloor> < m")
  case True
  with rhe_bounds [of y] show ?thesis by linarith
next
  case False
  with assms have f: "\<lfloor>y\<rfloor> = m" by linarith
  with assms have "y - of_int \<lfloor>y\<rfloor> < 1 / 2" by linarith
  with f show ?thesis by (simp add: round_half_even_def Let_def)
qed

lemma rhe_mono_int:
  assumes "of_int m \<le> y"
  shows "m \<le> round_half_even y"
  using assms by (intro rhe_ge) linarith

lemma rhe_le_int:
  assumes "y \<le> of_int m"
  shows "round_half_even y \<le> m"
  using assms by (intro rhe_le) linarith

text \<open>The rounding of a positive number whose binade is known.\<close>

lemma round64_pos:
  assumes "pow2 e \<le> x" and "x < pow2 (e + 1)" and "- 1022 \<le> e"
  shows "round64 x =
           (if pow2 1024 \<le> of_int (round_half_even (x / pow2 (e - 52))) * pow2 (e - 52) then PosInf
            else Finite (of_int (round_half_even (x / pow2 (e - 52))) * pow2 (e - 52)))"
proof -
  from assms(1) pow2_pos [of e] have x: "0 < x" by linarith
  then have "ilog2 \<bar>x\<bar> = e"
    using assms by (simp add: ilog2_unique)
  with x assms(3) show ?thesis
    by (simp add: round64_def Let_def max_def)
qed

lemma pow2_53: "pow2 (e + 1) = 2 ^ 53 * pow2 (e - 52)"
proof -
  have "e + 1 = 53 + (e - 52)" by linarith
  then have "pow2 (e + 1) = pow2 (53 + (e - 52))" by (rule arg_cong)
  also have "\<dots> = pow2 53 * pow2 (e - 52)" by (rule pow2_add)
  also have "pow2 53 = 2 ^ 53" by (simp add: pow2_def)
  finally show ?thesis .
qed

lemma pow2_52: "pow2 e = 2 ^ 52 * pow2 (e - 52)"
proof -
  have "e = 52 + (e - 52)" by linarith
  then have "pow2 e = pow2 (52 + (e - 52))" by (rule arg_cong)
  also have "\<dots> = pow2 52 * pow2 (e - 52)" by (rule pow2_add)
  also have "pow2 52 = 2 ^ 52" by (simp add: pow2_def)
  finally show ?thesis .
qed

text \<open>
  A number closer to a representable number \<open>v\<close> than half the spacing of its binade
  rounds to \<open>v\<close>.
\<close>

lemma round64_near:
  assumes v: "v = of_int m * pow2 (e - 52)" and m: "m < 2 ^ 53"
    and e: "- 1022 \<le> e" "e \<le> 1023"
    and lo: "pow2 e \<le> x" and near: "\<bar>x - v\<bar> < pow2 (e - 52) / 2"
  shows "round64 x = Finite v"
proof -
  define q where "q = pow2 (e - 52)"
  have q: "0 < q" by (simp add: q_def pow2_pos)
  have vq: "v = of_int m * q" by (simp add: v q_def)
  from m have "m \<le> 2 ^ 53 - 1" by linarith
  then have "rat_of_int m \<le> rat_of_int (2 ^ 53 - 1)" by (rule of_int_le_iff [THEN iffD2])
  then have m': "rat_of_int m \<le> 2 ^ 53 - 1" by simp
  have "rat_of_int m * q \<le> (2 ^ 53 - 1) * q"
    using m' q by (intro mult_right_mono) simp_all
  then have vle: "v \<le> 2 ^ 53 * q - q" by (simp add: vq algebra_simps)
  from near have nearq: "x - v < q / 2" "v - x < q / 2"
    unfolding q_def [symmetric] by linarith+
  have p53: "pow2 (e + 1) = 2 ^ 53 * q" by (simp add: pow2_53 q_def)
  from vle nearq q have hi: "x < pow2 (e + 1)" unfolding p53 by linarith
  have "x / q - of_int m = (x - v) / q"
    using q by (simp add: vq field_simps)
  then have "\<bar>x / q - of_int m\<bar> = \<bar>x - v\<bar> / q"
    using q by (simp add: abs_divide)
  also have "\<dots> < 1 / 2"
  proof -
    from near have "\<bar>x - v\<bar> < q / 2" by (simp add: q_def)
    then have "\<bar>x - v\<bar> / q < q / 2 / q" using q by (rule divide_strict_right_mono)
    with q show ?thesis by simp
  qed
  finally have r: "round_half_even (x / q) = m" by (rule rhe_near)
  from vle q have "v < pow2 (e + 1)" unfolding p53 by linarith
  also have "\<dots> \<le> pow2 1024" using e by (intro pow2_mono) simp
  finally have "\<not> pow2 1024 \<le> v" by simp
  with round64_pos [OF lo hi e(1)] r show ?thesis
    by (simp add: q_def [symmetric] vq)
qed

text \<open>Evaluation on numerals.\<close>

lemma log2floor_numeral:
  "log2floor (numeral k) =
     (if (numeral k :: nat) < 2 then 0 else Suc (log2floor (numeral k div 2)))"
  "log2floor 0 = 0" "log2floor 1 = 0" "log2floor (Suc 0) = 0"
  by (simp_all add: log2floor.simps)

lemma floor_rat_numeral:
  "\<lfloor>numeral a / numeral b :: rat\<rfloor> = numeral a div numeral b"
  "\<lfloor>1 / numeral b :: rat\<rfloor> = 1 div numeral b"
  by (metis floor_divide_of_int_eq of_int_numeral of_int_1)+

lemma ceiling_rat_numeral:
  "\<lceil>numeral a / numeral b :: rat\<rceil> = - (- numeral a div numeral b)"
  "\<lceil>1 / numeral b :: rat\<rceil> = - (- 1 div numeral b)"
  unfolding ceiling_def
  by (metis floor_divide_of_int_eq of_int_numeral of_int_1 of_int_minus minus_divide_left)+

lemmas f64_eval =
  round64_def ilog2_def pow2_def round_half_even_def log2floor_numeral floor_rat_numeral
  ceiling_rat_numeral Let_def

lemma round64_2_53: "round64 (2 ^ 53) = Finite (2 ^ 53)"
  by (simp add: f64_eval)

lemma rhe_eval: "round_half_even y = rhe_at y \<lfloor>y\<rfloor>"
  by (simp add: round_half_even_def rhe_at_def Let_def)

lemma round64_eval:
  assumes "x \<noteq> 0" and "\<bar>x\<bar> \<le> 2 ^ 64"
  shows "round64 x = Finite (sgn x * round_at \<bar>x\<bar> (pow2 (max (ilog2 \<bar>x\<bar>) (- 1022) - 52)))"
proof -
  define e where "e = max (ilog2 \<bar>x\<bar>) (- 1022)"
  define q where "q = pow2 (e - 52)"
  define r where "r = rat_of_int (round_half_even (\<bar>x\<bar> / q)) * q"
  from assms(1) have x: "0 < \<bar>x\<bar>" by simp
  have q: "0 < q" by (simp add: q_def pow2_pos)
  from ilog2_bounds [OF x] have "pow2 (ilog2 \<bar>x\<bar>) \<le> \<bar>x\<bar>" by simp
  also have "\<bar>x\<bar> \<le> pow2 64" using assms(2) by (simp add: pow2_def)
  finally have "ilog2 \<bar>x\<bar> < 65" using pow2_less [of 64 "ilog2 \<bar>x\<bar>"] by linarith
  then have "e - 52 \<le> 12" by (simp add: e_def)
  then have "q \<le> pow2 12" unfolding q_def by (rule pow2_mono)
  then have q12: "q \<le> 2 ^ 12" by (simp add: pow2_def)
  have "round_half_even (\<bar>x\<bar> / q) \<le> \<lfloor>\<bar>x\<bar> / q\<rfloor> + 1" using rhe_bounds by simp
  then have "rat_of_int (round_half_even (\<bar>x\<bar> / q)) \<le> rat_of_int (\<lfloor>\<bar>x\<bar> / q\<rfloor> + 1)"
    by (rule of_int_le_iff [THEN iffD2])
  also have "\<dots> \<le> \<bar>x\<bar> / q + 1" by simp
  finally have "r \<le> (\<bar>x\<bar> / q + 1) * q"
    unfolding r_def using q by (intro mult_right_mono) simp_all
  also have "\<dots> = \<bar>x\<bar> + q" using q by (simp add: field_simps)
  also have "\<dots> \<le> 2 ^ 64 + 2 ^ 12" using assms(2) q12 by linarith
  also have "\<dots> < pow2 1024"
  proof -
    have "(2 ^ 64 + 2 ^ 12 :: rat) < pow2 65" by (simp add: pow2_def)
    also have "\<dots> \<le> pow2 1024" by (rule pow2_mono) simp
    finally show ?thesis .
  qed
  finally have "\<not> pow2 1024 \<le> r" by simp
  then have "round64 x = Finite (sgn x * r)"
    using assms(1) by (simp add: round64_def Let_def e_def q_def r_def)
  then show ?thesis
    by (simp add: r_def q_def e_def round_at_def rhe_eval)
qed

lemma pow2_numeral:
  "pow2 (numeral k) = 2 ^ numeral k" "pow2 (- numeral k) = 1 / 2 ^ numeral k"
  "pow2 0 = 1" "pow2 1 = 2" "pow2 (- 1) = 1 / 2"
  by (simp_all add: pow2_def power_int_minus field_simps)

lemmas f64_fast =
  round64_eval round_at_def rhe_at_def ilog2_def pow2_numeral log2floor_numeral floor_rat_numeral
  ceiling_rat_numeral Let_def

text \<open>An integer of at most 53 bits is a \<^verbatim>\<open>float64\<close>.\<close>

lemma int_binade:
  assumes "0 < n" and "n < 2 ^ 53"
  obtains e m where "0 \<le> e" and "e \<le> 52" and "rat_of_int n = of_int m * pow2 (e - 52)"
    and "m < 2 ^ 53" and "pow2 e \<le> of_int n" and "rat_of_int n < 2 ^ 53 * pow2 (e - 52)"
proof -
  from assms have pos: "0 < rat_of_int n" by simp
  define e where "e = ilog2 (of_int n)"
  from ilog2_bounds [OF pos] have b: "pow2 e \<le> of_int n" "rat_of_int n < pow2 (e + 1)"
    by (simp_all add: e_def)
  from assms have "1 \<le> n" by linarith
  then have "rat_of_int 1 \<le> rat_of_int n" by (rule of_int_le_iff [THEN iffD2])
  then have "pow2 0 \<le> rat_of_int n" by (simp add: pow2_def)
  with b(2) have "pow2 0 < pow2 (e + 1)" by linarith
  then have e0: "0 \<le> e" using pow2_mono [of "e + 1" 0] by linarith
  have "rat_of_int n < rat_of_int (2 ^ 53)"
    using assms(2) by (rule of_int_less_iff [THEN iffD2])
  then have n53: "rat_of_int n < 2 ^ 53" by simp
  have p53: "pow2 53 = 2 ^ 53" by (simp add: pow2_def)
  from n53 b(1) have "pow2 e < pow2 53" unfolding p53 by linarith
  then have e52: "e \<le> 52" using pow2_mono [of 53 e] by linarith
  define k where "k = nat (52 - e)"
  define m where "m = n * 2 ^ k"
  have ek: "e - 52 = - int k" using e52 by (simp add: k_def)
  have q: "pow2 (e - 52) = 1 / 2 ^ k" unfolding ek by (rule pow2_neg_nat)
  have v: "rat_of_int n = of_int m * pow2 (e - 52)"
    by (simp add: m_def q)
  have hi: "rat_of_int n < 2 ^ 53 * pow2 (e - 52)"
    using b(2) unfolding pow2_53 [of e] .
  then have "rat_of_int m * pow2 (e - 52) < 2 ^ 53 * pow2 (e - 52)"
    unfolding v [symmetric] .
  then have "rat_of_int m < 2 ^ 53"
    using pow2_pos [of "e - 52"] by simp
  then have "rat_of_int m < rat_of_int (2 ^ 53)" by simp
  then have m: "m < 2 ^ 53" by (rule of_int_less_iff [THEN iffD1])
  from e0 e52 v m b(1) hi show ?thesis by (rule that)
qed

lemma round64_int:
  assumes "0 \<le> n" and "n \<le> 2 ^ 53"
  shows "round64 (of_int n) = Finite (of_int n)"
proof (cases "n = 0")
  case True
  then show ?thesis by (simp add: round64_def)
next
  case False
  with assms have pos: "0 < rat_of_int n" by simp
  define e where "e = ilog2 (of_int n)"
  from ilog2_bounds [OF pos] have b: "pow2 e \<le> of_int n" "rat_of_int n < pow2 (e + 1)"
    by (simp_all add: e_def)
  from False assms have "1 \<le> n" by linarith
  then have "rat_of_int 1 \<le> rat_of_int n" by (rule of_int_le_iff [THEN iffD2])
  then have "pow2 0 \<le> rat_of_int n" by (simp add: pow2_def)
  with b(2) have "pow2 0 < pow2 (e + 1)" by linarith
  then have e0: "0 \<le> e" using pow2_mono [of "e + 1" 0] by linarith
  have "rat_of_int n \<le> rat_of_int (2 ^ 53)"
    using assms(2) by (rule of_int_le_iff [THEN iffD2])
  then have n53: "rat_of_int n \<le> 2 ^ 53" by simp
  have p53: "pow2 53 = 2 ^ 53" by (simp add: pow2_def)
  from n53 b(1) have "pow2 e \<le> pow2 53" unfolding p53 by linarith
  then have e53: "e \<le> 53" using pow2_less [of 53 e] by linarith
  show ?thesis
  proof (cases "e = 53")
    case True
    with b(1) have "pow2 53 \<le> rat_of_int n" by simp
    with n53 have "rat_of_int n = 2 ^ 53" unfolding p53 by linarith
    then show ?thesis by (simp only: round64_2_53)
  next
    case False
    with e53 have e52: "e \<le> 52" by linarith
    define k where "k = nat (52 - e)"
    define m where "m = n * 2 ^ k"
    have ek: "e - 52 = - int k" using e52 by (simp add: k_def)
    have q: "pow2 (e - 52) = 1 / 2 ^ k" unfolding ek by (rule pow2_neg_nat)
    have v: "rat_of_int n = of_int m * pow2 (e - 52)"
      by (simp add: m_def q)
    have "rat_of_int m * pow2 (e - 52) < 2 ^ 53 * pow2 (e - 52)"
      using b(2) unfolding pow2_53 [of e] v [symmetric] .
    then have "rat_of_int m < 2 ^ 53"
      using pow2_pos [of "e - 52"] by simp
    then have "rat_of_int m < rat_of_int (2 ^ 53)" by simp
    then have m: "m < 2 ^ 53" by (rule of_int_less_iff [THEN iffD1])
    have "\<bar>rat_of_int n - rat_of_int n\<bar> < pow2 (e - 52) / 2"
      using pow2_pos [of "e - 52"] by simp
    from round64_near [OF v m _ _ b(1) this] e0 e52 show ?thesis by simp
  qed
qed

lemma round64_int_near:
  assumes "0 < n" and "n < 2 ^ 53" and "0 \<le> d" and "d * 2 ^ 54 < of_int n"
  shows "round64 (of_int n + d) = Finite (of_int n)"
proof -
  from int_binade [OF assms(1,2)] obtain e m
    where e: "0 \<le> e" "e \<le> 52" and v: "rat_of_int n = of_int m * pow2 (e - 52)"
      and m: "m < 2 ^ 53" and lo: "pow2 e \<le> of_int n"
      and hi: "rat_of_int n < 2 ^ 53 * pow2 (e - 52)" by blast
  from lo assms(3) have lo': "pow2 e \<le> of_int n + d" by linarith
  from hi assms(4) have "d * 2 ^ 54 < 2 ^ 53 * pow2 (e - 52)" by linarith
  then have "d < pow2 (e - 52) / 2" by simp
  with assms(3) have "\<bar>of_int n + d - of_int n\<bar> < pow2 (e - 52) / 2" by simp
  from round64_near [OF v m _ _ lo' this] e show ?thesis by simp
qed

text \<open>
  So is its product by a power of 2, and a number that exceeds such a product by less
  than half the spacing of its binade rounds to it.
\<close>

lemma round64_scaled_near:
  assumes "0 < n" and "n < 2 ^ 53" and "k \<le> 900" and "0 \<le> d"
    and "d * 2 ^ 54 < of_int n * 2 ^ k"
  shows "round64 (of_int n * 2 ^ k + d) = Finite (of_int n * 2 ^ k)"
proof -
  from int_binade [OF assms(1,2)] obtain e m
    where e: "0 \<le> e" "e \<le> 52" and v: "rat_of_int n = of_int m * pow2 (e - 52)"
      and m: "m < 2 ^ 53" and lo: "pow2 e \<le> of_int n"
      and hi: "rat_of_int n < 2 ^ 53 * pow2 (e - 52)" by blast
  define e' where "e' = e + int k"
  have "e' - 52 = (e - 52) + int k" by (simp add: e'_def)
  then have "pow2 (e' - 52) = pow2 ((e - 52) + int k)" by (rule arg_cong)
  then have pk: "pow2 (e' - 52) = pow2 (e - 52) * 2 ^ k"
    by (simp only: pow2_add pow2_nat)
  have pe: "pow2 e' = pow2 e * 2 ^ k"
    unfolding e'_def by (simp only: pow2_add pow2_nat)
  have v': "rat_of_int n * 2 ^ k = of_int m * pow2 (e' - 52)"
    by (simp only: pk v mult.assoc)
  have "pow2 e * 2 ^ k \<le> rat_of_int n * 2 ^ k"
    using lo by (intro mult_right_mono) simp_all
  with assms(4) have lo': "pow2 e' \<le> rat_of_int n * 2 ^ k + d"
    unfolding pe by linarith
  have "rat_of_int n * 2 ^ k < 2 ^ 53 * pow2 (e - 52) * 2 ^ k"
    using hi by (intro mult_strict_right_mono) simp_all
  also have "\<dots> = 2 ^ 53 * pow2 (e' - 52)"
    by (simp only: pk mult.assoc)
  finally have "d * 2 ^ 54 < 2 ^ 53 * pow2 (e' - 52)"
    using assms(5) by linarith
  then have "d < pow2 (e' - 52) / 2" by simp
  with assms(4) have near: "\<bar>rat_of_int n * 2 ^ k + d - rat_of_int n * 2 ^ k\<bar> < pow2 (e' - 52) / 2"
    by simp
  have "- 1022 \<le> e'" "e' \<le> 1023"
    using e assms(3) by (simp_all add: e'_def)
  from round64_near [OF v' m this lo' near] show ?thesis .
qed

lemma round64_scaled:
  assumes "0 \<le> n" and "n < 2 ^ 53" and "k \<le> 900"
  shows "round64 (of_int n * 2 ^ k) = Finite (of_int n * 2 ^ k)"
proof (cases "n = 0")
  case True
  then show ?thesis by (simp add: round64_def)
next
  case False
  with assms(1) have n: "0 < n" by simp
  then have "0 < rat_of_int n * 2 ^ k" by simp
  then have "(0::rat) * 2 ^ 54 < rat_of_int n * 2 ^ k" by simp
  from round64_scaled_near [OF n assms(2,3) order_refl this] show ?thesis by simp
qed

text \<open>Rounding does not cross a representable number.\<close>

lemma round64_ge:
  assumes v: "v = of_int m * pow2 (e - 52)" and m: "m < 2 ^ 53"
    and e: "- 1022 \<le> e" and lo: "pow2 e \<le> x" and near: "v - pow2 (e - 52) / 2 < x"
  shows "f64_le (Finite v) (round64 x)"
proof -
  from lo pow2_pos [of e] have x: "0 < x" by linarith
  define e' where "e' = ilog2 x"
  from ilog2_bounds [OF x] have b: "pow2 e' \<le> x" "x < pow2 (e' + 1)"
    by (simp_all add: e'_def)
  from lo b(2) have "pow2 e < pow2 (e' + 1)" by linarith
  then have ee: "e \<le> e'" using pow2_mono [of "e' + 1" e] by linarith
  with e have e'lo: "- 1022 \<le> e'" by linarith
  define q where "q = pow2 (e' - 52)"
  have q: "0 < q" by (simp add: q_def pow2_pos)
  define r where "r = rat_of_int (round_half_even (x / q)) * q"
  have r64: "round64 x = (if pow2 1024 \<le> r then PosInf else Finite r)"
    using round64_pos [OF b e'lo] by (simp add: r_def q_def)
  have "v \<le> r"
  proof (cases "e' = e")
    case True
    then have vq: "v = of_int m * q" by (simp add: v q_def)
    from near True have "of_int m * q - q / 2 < x" by (simp add: vq q_def)
    then have "(of_int m - 1 / 2) * q < x" by (simp add: algebra_simps)
    then have "of_int m - 1 / 2 < x / q" using q by (simp add: pos_less_divide_eq)
    then have "m \<le> round_half_even (x / q)" by (rule rhe_ge)
    then have "rat_of_int m \<le> rat_of_int (round_half_even (x / q))"
      by (rule of_int_le_iff [THEN iffD2])
    then show ?thesis unfolding vq r_def using q by (intro mult_right_mono) simp_all
  next
    case False
    with ee have lt: "e + 1 \<le> e'" by linarith
    have "2 ^ 52 * q \<le> x" using b(1) unfolding pow2_52 [of e'] q_def .
    then have "2 ^ 52 \<le> x / q" using q by (simp add: pos_le_divide_eq)
    then have "rat_of_int (2 ^ 52) \<le> x / q" by simp
    then have "2 ^ 52 \<le> round_half_even (x / q)" by (rule rhe_mono_int)
    then have "rat_of_int (2 ^ 52) \<le> rat_of_int (round_half_even (x / q))"
      by (rule of_int_le_iff [THEN iffD2])
    then have "rat_of_int (2 ^ 52) * q \<le> r"
      unfolding r_def using q by (intro mult_right_mono) simp_all
    then have "pow2 e' \<le> r" unfolding pow2_52 [of e'] q_def by simp
    moreover have "pow2 (e + 1) \<le> pow2 e'" using lt by (rule pow2_mono)
    moreover have "v < pow2 (e + 1)"
    proof -
      from m have "rat_of_int m < rat_of_int (2 ^ 53)" by (rule of_int_less_iff [THEN iffD2])
      then have "rat_of_int m < 2 ^ 53" by simp
      then have "rat_of_int m * pow2 (e - 52) < 2 ^ 53 * pow2 (e - 52)"
        using pow2_pos [of "e - 52"] by (intro mult_strict_right_mono) simp_all
      then show ?thesis unfolding pow2_53 [of e] v .
    qed
    ultimately show ?thesis by linarith
  qed
  then show ?thesis by (simp add: r64)
qed

lemma round64_le:
  assumes v: "v = of_int m * pow2 (e - 52)" and m: "2 ^ 52 \<le> m" "m < 2 ^ 53"
    and e: "- 1022 < e" "e \<le> 1023" and lo: "pow2 (- 1022) \<le> x"
    and near: "x < v + pow2 (e - 52) / 2"
  shows "\<exists>r. round64 x = Finite r \<and> r \<le> v"
proof -
  from lo pow2_pos [of "- 1022"] have x: "0 < x" by linarith
  define e' where "e' = ilog2 x"
  from ilog2_bounds [OF x] have b: "pow2 e' \<le> x" "x < pow2 (e' + 1)"
    by (simp_all add: e'_def)
  from lo b(2) have "pow2 (- 1022) < pow2 (e' + 1)" by linarith
  then have e'lo: "- 1022 \<le> e'" using pow2_mono [of "e' + 1" "- 1022"] by linarith
  define q0 where "q0 = pow2 (e - 52)"
  have q0: "0 < q0" by (simp add: q0_def pow2_pos)
  have vq0: "v = of_int m * q0" by (simp add: v q0_def)
  from m(2) have "m \<le> 2 ^ 53 - 1" by linarith
  then have "rat_of_int m \<le> rat_of_int (2 ^ 53 - 1)" by (rule of_int_le_iff [THEN iffD2])
  then have "rat_of_int m \<le> 2 ^ 53 - 1" by simp
  then have "rat_of_int m * q0 \<le> (2 ^ 53 - 1) * q0"
    using q0 by (intro mult_right_mono) simp_all
  then have vle: "v \<le> 2 ^ 53 * q0 - q0" by (simp add: vq0 algebra_simps)
  have p53: "pow2 (e + 1) = 2 ^ 53 * q0" by (simp add: pow2_53 q0_def)
  from near vle q0 have xhi: "x < pow2 (e + 1)" unfolding p53 q0_def [symmetric] by linarith
  with b(1) have "pow2 e' < pow2 (e + 1)" by linarith
  then have ee: "e' \<le> e" using pow2_mono [of "e + 1" e'] by linarith
  from vle q0 have "v < pow2 (e + 1)" unfolding p53 by linarith
  also have "\<dots> \<le> pow2 1024" using e by (intro pow2_mono) simp
  finally have vfin: "v < pow2 1024" .
  define q where "q = pow2 (e' - 52)"
  have q: "0 < q" by (simp add: q_def pow2_pos)
  define r where "r = rat_of_int (round_half_even (x / q)) * q"
  have r64: "round64 x = (if pow2 1024 \<le> r then PosInf else Finite r)"
    using round64_pos [OF b e'lo] by (simp add: r_def q_def)
  have "r \<le> v"
  proof (cases "e' = e")
    case True
    then have qq: "q = q0" by (simp add: q_def q0_def)
    from near have "x < of_int m * q + q / 2" by (simp add: vq0 qq q0_def)
    then have "x < (of_int m + 1 / 2) * q" by (simp add: algebra_simps)
    then have "x / q < of_int m + 1 / 2" using q by (simp add: pos_divide_less_eq)
    then have "round_half_even (x / q) \<le> m" by (rule rhe_le)
    then have "rat_of_int (round_half_even (x / q)) \<le> rat_of_int m"
      by (rule of_int_le_iff [THEN iffD2])
    then show ?thesis unfolding vq0 r_def qq using q0 by (intro mult_right_mono) simp_all
  next
    case False
    with ee have lt: "e' + 1 \<le> e" by linarith
    have "x < 2 ^ 53 * q" using b(2) unfolding pow2_53 [of e'] q_def .
    then have "x / q < 2 ^ 53" using q by (simp add: pos_divide_less_eq)
    then have "x / q \<le> rat_of_int (2 ^ 53)" by simp
    then have "round_half_even (x / q) \<le> 2 ^ 53" by (rule rhe_le_int)
    then have "rat_of_int (round_half_even (x / q)) \<le> rat_of_int (2 ^ 53)"
      by (rule of_int_le_iff [THEN iffD2])
    then have "r \<le> rat_of_int (2 ^ 53) * q"
      unfolding r_def using q by (intro mult_right_mono) simp_all
    then have "r \<le> pow2 (e' + 1)" unfolding pow2_53 [of e'] q_def by simp
    moreover have "pow2 (e' + 1) \<le> pow2 e" using lt by (rule pow2_mono)
    moreover have "pow2 e \<le> v"
    proof -
      from m(1) have "rat_of_int (2 ^ 52) \<le> rat_of_int m" by (rule of_int_le_iff [THEN iffD2])
      then have "2 ^ 52 \<le> rat_of_int m" by simp
      then have "2 ^ 52 * q0 \<le> rat_of_int m * q0"
        using q0 by (intro mult_right_mono) simp_all
      then show ?thesis unfolding pow2_52 [of e] vq0 q0_def .
    qed
    ultimately show ?thesis by linarith
  qed
  with vfin show ?thesis by (simp add: r64)
qed

section \<open>Properties of scoring\<close>

lemma const_5: "round64 5 = Finite 5"
  by (simp add: f64_eval)

lemma const_1_5: "round64 (3 / 2) = Finite (3 / 2)"
  by (simp add: f64_eval)

lemma const_1_3: "round64 (13 / 10) = Finite (5854679515581645 / 2 ^ 52)"
  by (simp add: f64_eval)

lemma const_0_9: "round64 (9 / 10) = Finite (8106479329266893 / 2 ^ 53)"
  by (simp add: f64_eval)

lemma wrap64_id: "- (2 ^ 63) \<le> i \<Longrightarrow> i < 2 ^ 63 \<Longrightarrow> wrap64 i = i"
  by (simp add: wrap64_def)

lemma f64_to_int_of_int:
  "- (2 ^ 63) \<le> k \<Longrightarrow> k < 2 ^ 63 \<Longrightarrow> f64_to_int (Finite (of_int k)) = Some k"
  by (simp add: truncate_def)

text \<open>
  The base score is a \<^verbatim>\<open>float64\<close> while 25 times the correct attempts has at most 53
  bits, and the correct attempts are one while they have at most 53 bits.
\<close>

lemma float64_base:
  assumes "0 \<le> c" and "c \<le> 360287970189639"
  shows "float64 (c * 100) = Finite (of_int (c * 100))"
proof -
  from assms have "0 \<le> c * 25" "c * 25 < 2 ^ 53" by simp_all
  then have "round64 (rat_of_int (c * 25) * 2 ^ 2) = Finite (rat_of_int (c * 25) * 2 ^ 2)"
    by (rule round64_scaled) simp
  moreover have "rat_of_int (c * 25) * 2 ^ 2 = rat_of_int (c * 100)" by simp
  ultimately show ?thesis by (simp only: float64_def)
qed

lemma float64_exact:
  assumes "0 \<le> c" and "c \<le> 2 ^ 53"
  shows "float64 c = Finite (of_int c)"
  unfolding float64_def using assms by (rule round64_int)

text \<open>
  The product by 1.5 is exact while 150 times the correct attempts is a \<^verbatim>\<open>float64\<close>, which
  it is up to 120095990063214 correct attempts.
\<close>

lemma mul_1_5:
  assumes "0 \<le> c" and "c \<le> 120095990063214"
  shows "f64_mul (float64 (c * 100)) (round64 (3 / 2)) = Finite (of_int (c * 150))"
proof -
  from assms have f: "float64 (c * 100) = Finite (of_int (c * 100))"
    by (intro float64_base) simp_all
  have "f64_mul (float64 (c * 100)) (round64 (3 / 2)) = round64 (rat_of_int (c * 100) * (3 / 2))"
    by (simp only: f const_1_5 f64_mul.simps)
  also have "rat_of_int (c * 100) * (3 / 2) = of_int (c * 150)" by simp
  also have "round64 (of_int (c * 150)) = Finite (of_int (c * 150))"
  proof (cases "c = 120095990063214")
    case True
    have "round64 18014398509482100 = Finite 18014398509482100"
      by (simp add: f64_fast)
    with True show ?thesis by simp
  next
    case False
    with assms have "0 \<le> c * 75" "c * 75 < 2 ^ 53" by simp_all
    then have "round64 (rat_of_int (c * 75) * 2 ^ 1) = Finite (rat_of_int (c * 75) * 2 ^ 1)"
      by (rule round64_scaled) simp
    moreover have "rat_of_int (c * 75) * 2 ^ 1 = rat_of_int (c * 150)" by simp
    ultimately show ?thesis by (simp only:)
  qed
  finally show ?thesis .
qed

text \<open>
  The \<^verbatim>\<open>float64\<close> nearest to 1.3 exceeds it by so little that the product rounds to 130
  times the correct attempts while that is a \<^verbatim>\<open>float64\<close>, which it is up to
  138572296226784 correct attempts.
\<close>

lemma mul_1_3:
  assumes "0 \<le> c" and "c \<le> 138572296226784"
  shows "f64_mul (float64 (c * 100)) (round64 (13 / 10)) = Finite (of_int (c * 130))"
proof -
  from assms have f: "float64 (c * 100) = Finite (of_int (c * 100))"
    by (intro float64_base) simp_all
  define d where "d = rat_of_int c * (100 / (5 * 2 ^ 52))"
  have "f64_mul (float64 (c * 100)) (round64 (13 / 10)) =
          round64 (rat_of_int (c * 100) * (5854679515581645 / 2 ^ 52))"
    by (simp only: f const_1_3 f64_mul.simps)
  also have "rat_of_int (c * 100) * (5854679515581645 / 2 ^ 52) = of_int (c * 65) * 2 ^ 1 + d"
    by (simp add: d_def field_simps)
  also have "round64 (of_int (c * 65) * 2 ^ 1 + d) = Finite (of_int (c * 65) * 2 ^ 1)"
  proof (cases "c = 0")
    case True
    then show ?thesis by (simp add: d_def round64_def)
  next
    case False
    with assms have c: "0 < c" by simp
    then have "0 < c * 65" "c * 65 < 2 ^ 53" using assms(2) by simp_all
    moreover have "(1::nat) \<le> 900" by simp
    moreover have "0 \<le> d" using c by (simp add: d_def)
    moreover have "d * 2 ^ 54 = of_int (c * 80)" by (simp add: d_def)
    then have "d * 2 ^ 54 < of_int (c * 65) * 2 ^ 1" using c by simp
    ultimately show ?thesis by (rule round64_scaled_near)
  qed
  also have "rat_of_int (c * 65) * 2 ^ 1 = of_int (c * 130)" by simp
  finally show ?thesis .
qed

text \<open>
  The quotient of the attempts against \<^verbatim>\<open>0.9\<close>. The \<^verbatim>\<open>float64\<close> nearest to 0.9 is
  \<open>8106479329266893 / 2 ^ 53\<close>, which is above 0.9: a quotient of at least 0.9 rounds to
  at least that, and a quotient rounds below it when it is below
  \<open>16212958658533785 / 2 ^ 54\<close>, the midpoint to the \<^verbatim>\<open>float64\<close> before.
\<close>

lemma accuracy_high:
  assumes "0 \<le> c" and "c \<le> 2 ^ 53" and "0 < t" and "t \<le> 2 ^ 53"
    and "9 / 10 \<le> rat_of_int c / rat_of_int t"
  shows "f64_le (round64 (9 / 10)) (f64_div (float64 c) (float64 t))"
proof -
  define x where "x = rat_of_int c / rat_of_int t"
  define m :: int where "m = 8106479329266893"
  from assms have "float64 c = Finite (of_int c)" "float64 t = Finite (of_int t)"
    by (intro float64_exact; simp)+
  with assms(3) have d: "f64_div (float64 c) (float64 t) = round64 x"
    by (simp add: x_def)
  have k: "round64 (9 / 10) = Finite (of_int m * pow2 (- 1 - 52))"
    by (simp add: const_0_9 m_def pow2_def)
  from assms(5) have x: "9 / 10 \<le> x" by (simp only: x_def)
  then have "pow2 (- 1) \<le> x" by (simp add: pow2_def)
  moreover have "of_int m * pow2 (- 1 - 52) - pow2 (- 1 - 52) / 2 < x"
    using x by (simp add: m_def pow2_def)
  ultimately have "f64_le (Finite (of_int m * pow2 (- 1 - 52))) (round64 x)"
    by (intro round64_ge [where m = m and e = "- 1"]) (simp_all add: m_def)
  then show ?thesis by (simp only: d k)
qed

lemma below_0_9:
  assumes "pow2 (- 1022) \<le> x" and "x < 16212958658533785 / 2 ^ 54"
  shows "\<not> f64_le (round64 (9 / 10)) (round64 x)"
proof -
  define m :: int where "m = 8106479329266893"
  have near: "x < of_int (m - 1) * pow2 (- 1 - 52) + pow2 (- 1 - 52) / 2"
    using assms(2) by (simp add: m_def pow2_def)
  have "\<exists>r. round64 x = Finite r \<and> r \<le> of_int (m - 1) * pow2 (- 1 - 52)"
    using assms(1) near
    by (intro round64_le [where m = "m - 1" and e = "- 1"]) (simp_all add: m_def)
  then obtain r where r: "round64 x = Finite r" "r \<le> of_int (m - 1) * pow2 (- 1 - 52)"
    by blast
  have "of_int (m - 1) * pow2 (- 1 - 52) < (8106479329266893 / 2 ^ 53 :: rat)"
    by (simp add: m_def pow2_def)
  with r(2) have "r < 8106479329266893 / 2 ^ 53" by linarith
  with r(1) show ?thesis by (simp add: const_0_9)
qed

lemma accuracy_low:
  assumes "0 \<le> c" and "0 < t" and "t \<le> 2 ^ 53"
    and "c * 2 ^ 54 < 16212958658533785 * t"
  shows "\<not> f64_le (round64 (9 / 10)) (f64_div (float64 c) (float64 t))"
proof -
  define x where "x = rat_of_int c / rat_of_int t"
  from assms(3,4) have c53: "c \<le> 2 ^ 53" by simp
  from assms c53 have "float64 c = Finite (of_int c)" "float64 t = Finite (of_int t)"
    by (intro float64_exact; simp)+
  with assms(2) have d: "f64_div (float64 c) (float64 t) = round64 x"
    by (simp add: x_def)
  have t: "0 < rat_of_int t" using assms(2) by simp
  have "rat_of_int (c * 2 ^ 54) < rat_of_int (16212958658533785 * t)"
    using assms(4) by (rule of_int_less_iff [THEN iffD2])
  then have "rat_of_int c * 2 ^ 54 < 16212958658533785 * rat_of_int t" by simp
  then have near: "x < 16212958658533785 / 2 ^ 54"
    using t by (simp add: x_def field_simps)
  show ?thesis
  proof (cases "c = 0")
    case True
    then have "round64 x = Finite 0" by (simp add: x_def round64_def)
    then show ?thesis by (simp add: d const_0_9)
  next
    case False
    with assms(1) have "1 \<le> c" by linarith
    then have "rat_of_int 1 \<le> rat_of_int c" by (rule of_int_le_iff [THEN iffD2])
    then have c1: "1 \<le> rat_of_int c" by simp
    have "rat_of_int t \<le> rat_of_int (2 ^ 53)"
      using assms(3) by (rule of_int_le_iff [THEN iffD2])
    then have t53: "rat_of_int t \<le> 2 ^ 53" by simp
    have "1 / 2 ^ 53 \<le> x"
      unfolding x_def using c1 t t53 by (intro frac_le) simp_all
    moreover have "pow2 (- 1022) \<le> pow2 (- 53)" by (rule pow2_mono) simp
    moreover have "pow2 (- 53) = 1 / 2 ^ 53" by (simp add: pow2_def)
    ultimately have "pow2 (- 1022) \<le> x" by linarith
    from below_0_9 [OF this near] show ?thesis unfolding d .
  qed
qed

text \<open>
  More than \<open>2 ^ 53\<close> attempts are rounded by the conversion, to at least \<open>2 ^ 53\<close>: the
  quotient of fewer than \<open>2 ^ 52\<close> correct attempts is below one half.
\<close>

lemma accuracy_large:
  assumes "0 \<le> c" and "c < 2 ^ 52" and "2 ^ 53 < t" and "t < 2 ^ 63"
  shows "\<not> f64_le (round64 (9 / 10)) (f64_div (float64 c) (float64 t))"
proof -
  have "rat_of_int (2 ^ 53) < rat_of_int t"
    using assms(3) by (rule of_int_less_iff [THEN iffD2])
  then have t53: "2 ^ 53 < rat_of_int t" by simp
  have "rat_of_int t < rat_of_int (2 ^ 63)"
    using assms(4) by (rule of_int_less_iff [THEN iffD2])
  then have t63: "rat_of_int t < 2 ^ 63" by simp
  have "f64_le (Finite (2 ^ 53)) (round64 (of_int t))"
    using t53
    by (intro round64_ge [where m = "2 ^ 52" and e = 53]) (simp_all add: pow2_def)
  moreover have "\<exists>r. round64 (of_int t) = Finite r \<and> r \<le> 2 ^ 63"
  proof -
    have "pow2 (- 1022) \<le> pow2 0" by (rule pow2_mono) simp
    also have "\<dots> \<le> rat_of_int t" using t53 by (simp add: pow2_def)
    finally have "pow2 (- 1022) \<le> rat_of_int t" .
    then show ?thesis
      using t63
      by (intro round64_le [where m = "2 ^ 52" and e = 63]) (simp_all add: pow2_def)
  qed
  ultimately obtain ft where ft: "float64 t = Finite ft" "2 ^ 53 \<le> ft" "ft \<le> 2 ^ 63"
    unfolding float64_def by auto
  from assms have fc: "float64 c = Finite (of_int c)"
    by (intro float64_exact) simp_all
  define x where "x = rat_of_int c / ft"
  from ft(2) have d: "f64_div (float64 c) (float64 t) = round64 x"
    by (simp add: fc ft(1) x_def)
  show ?thesis
  proof (cases "c = 0")
    case True
    then have "round64 x = Finite 0" by (simp add: x_def round64_def)
    then show ?thesis by (simp add: d const_0_9)
  next
    case False
    with assms(1) have "1 \<le> c" by linarith
    then have "rat_of_int 1 \<le> rat_of_int c" by (rule of_int_le_iff [THEN iffD2])
    then have c1: "1 \<le> rat_of_int c" by simp
    have "rat_of_int c < rat_of_int (2 ^ 52)"
      using assms(2) by (rule of_int_less_iff [THEN iffD2])
    then have c52: "rat_of_int c < 2 ^ 52" by simp
    have "1 / 2 ^ 63 \<le> x"
      unfolding x_def using c1 ft by (intro frac_le) simp_all
    moreover have "pow2 (- 1022) \<le> pow2 (- 63)" by (rule pow2_mono) simp
    moreover have "pow2 (- 63) = 1 / 2 ^ 63" by (simp add: pow2_def)
    ultimately have lo: "pow2 (- 1022) \<le> x" by linarith
    have "x \<le> rat_of_int c / 2 ^ 53"
      unfolding x_def using c1 ft by (intro frac_le) simp_all
    also have "\<dots> < 2 ^ 52 / 2 ^ 53"
      using c52 by (intro divide_strict_right_mono) simp_all
    finally have "x < 16212958658533785 / 2 ^ 54" by simp
    from below_0_9 [OF lo this] show ?thesis unfolding d .
  qed
qed

text \<open>
  Up to 2702159776422304 correct attempts, an exact quotient below 0.9 is below the
  midpoint.
\<close>

lemma low_margin:
  assumes "c \<le> 2702159776422304" and "0 < t" and "c * 10 < t * 9"
  shows "c * 2 ^ 54 < 16212958658533785 * (t::int)"
proof -
  consider "t \<le> 3002399751580330" | "3002399751580331 \<le> t" "t \<le> 3002399751580338"
    | "3002399751580339 \<le> t" by linarith
  then show ?thesis
  proof cases
    case 1
    with assms(3) show ?thesis by simp
  next
    case 2
    with assms(3) have "c * 10 + 2 \<le> t * 9" by presburger
    with 2 show ?thesis by simp
  next
    case 3
    with assms(1) show ?thesis by simp
  qed
qed

lemma truncate_scaled:
  assumes "0 \<le> c"
  shows "truncate (rat_of_int (c * 100) * (3 / 2)) = c * 150"
    and "truncate (rat_of_int (c * 100) * (13 / 10)) = c * 130"
proof -
  have "rat_of_int (c * 100) * (3 / 2) = of_int (c * 150)" by simp
  moreover have "rat_of_int (c * 100) * (13 / 10) = of_int (c * 130)" by simp
  moreover have "0 \<le> rat_of_int (c * 150)" "0 \<le> rat_of_int (c * 130)"
    using assms by simp_all
  ultimately show "truncate (rat_of_int (c * 100) * (3 / 2)) = c * 150"
    and "truncate (rat_of_int (c * 100) * (13 / 10)) = c * 130"
    unfolding truncate_def by (simp_all only: if_True floor_of_int)
qed

lemma accuracy_0_9:
  assumes "0 \<le> c" and "0 \<le> t" and "t < 2 ^ 63"
    and "c \<le> (if (if t = 0 then 0 < c else 9 / 10 \<le> rat_of_int c / rat_of_int t)
               then 138572296226784 else 2702159776422304)"
  shows "f64_le (round64 (9 / 10)) (f64_div (float64 c) (float64 t)) \<longleftrightarrow>
           (if t = 0 then 0 < c else 9 / 10 \<le> rat_of_int c / rat_of_int t)"
proof (cases "t = 0")
  case True
  from assms(4) have "c \<le> 2 ^ 53" by (simp split: if_splits)
  with assms(1) have "float64 c = Finite (of_int c)" by (intro float64_exact)
  moreover have "float64 0 = Finite 0" by (simp add: float64_def round64_def)
  ultimately show ?thesis using True assms(1) by (simp add: const_0_9)
next
  case False
  with assms(2) have t: "0 < t" by simp
  then have rt: "0 < rat_of_int t" by simp
  show ?thesis
  proof (cases "9 / 10 \<le> rat_of_int c / rat_of_int t")
    case high: True
    with False assms(4) have c: "c \<le> 138572296226784" by simp
    from high rt have "rat_of_int t * 9 \<le> rat_of_int c * 10"
      by (simp add: field_simps)
    then have "rat_of_int (t * 9) \<le> rat_of_int (c * 10)" by simp
    then have "t * 9 \<le> c * 10" by (rule of_int_le_iff [THEN iffD1])
    with c have "c \<le> 2 ^ 53" "t \<le> 2 ^ 53" by simp_all
    from accuracy_high [OF assms(1) this(1) t this(2) high] high False
    show ?thesis by simp
  next
    case low: False
    with False assms(4) have c: "c \<le> 2702159776422304" by simp
    from low rt have "rat_of_int c * 10 < rat_of_int t * 9"
      by (simp add: field_simps)
    then have "rat_of_int (c * 10) < rat_of_int (t * 9)" by simp
    then have lt: "c * 10 < t * 9" by (rule of_int_less_iff [THEN iffD1])
    have "\<not> f64_le (round64 (9 / 10)) (f64_div (float64 c) (float64 t))"
    proof (cases "t \<le> 2 ^ 53")
      case True
      from low_margin [OF c t lt] have "c * 2 ^ 54 < 16212958658533785 * t" .
      from accuracy_low [OF assms(1) t True this] show ?thesis .
    next
      case False
      then have "2 ^ 53 < t" by simp
      moreover from c have "c < 2 ^ 52" by simp
      ultimately show ?thesis using assms(1,3) by (intro accuracy_large)
    qed
    with low False show ?thesis by simp
  qed
qed

text \<open>
  Claim C4, as amended. For every mode, every average time, every number of attempts
  that is a non-negative \<^verbatim>\<open>int\<close>, and every number of correct attempts from 0 up to the
  bound of its case, \<open>CalculateScore\<close> returns the number of correct attempts times 100;
  in rapid-fire mode with an average time below 5.0, that times 1.5, truncated toward
  zero; in total-game mode when the correct attempts are at least 0.9 of the attempts,
  that times 1.3, truncated toward zero. With no attempts and some correct attempts the
  quotient of \<open>CalculateScore\<close> is infinite and counts as at least 0.9. The bounds on the
  correct attempts are 92233720368547758 in every case, the greatest number whose
  product by 100 is an \<^verbatim>\<open>int\<close>; 120095990063214 where the score is multiplied by 1.5;
  and in total-game mode 138572296226784 where it is multiplied by 1.3 and
  2702159776422304 where it is not. There is no bound on the attempts.
\<close>

theorem CalculateScore_bounded:
  assumes "0 \<le> c" and "c \<le> 92233720368547758" and "0 \<le> t" and "t < 2 ^ 63"
    and "mode = ModeRapidFire \<and> f64_lt averageTime (Finite 5) \<longrightarrow> c \<le> 120095990063214"
    and "mode = ModeTotalGame \<longrightarrow>
           c \<le> (if (if t = 0 then 0 < c else 9 / 10 \<le> rat_of_int c / rat_of_int t)
                  then 138572296226784 else 2702159776422304)"
  shows "CalculateScore mode c t averageTime =
           Some (if mode = ModeRapidFire \<and> f64_lt averageTime (Finite 5) then
                   truncate (of_int (c * 100) * (3 / 2))
                 else if mode = ModeTotalGame \<and>
                         (if t = 0 then 0 < c else 9 / 10 \<le> rat_of_int c / rat_of_int t) then
                   truncate (of_int (c * 100) * (13 / 10))
                 else c * 100)"
proof -
  from assms(1,2) have "- (2 ^ 63) \<le> c * 100" "c * 100 < 2 ^ 63" by simp_all
  then have base: "wrap64 (c * 100) = c * 100" by (rule wrap64_id)
  note tr = truncate_scaled [OF assms(1)]
  have ne: "ModeRapidFire \<noteq> ModeTotalGame"
    by (simp add: ModeRapidFire_def ModeTotalGame_def)
  show ?thesis
  proof (cases "mode = ModeRapidFire")
    case rapid: True
    show ?thesis
    proof (cases "f64_lt averageTime (Finite 5)")
      case True
      with rapid assms(5) have c: "c \<le> 120095990063214" by simp
      with assms(1) have "- (2 ^ 63) \<le> c * 150" "c * 150 < 2 ^ 63" by simp_all
      then have "f64_to_int (Finite (of_int (c * 150))) = Some (c * 150)"
        by (rule f64_to_int_of_int)
      with rapid True mul_1_5 [OF assms(1) c] show ?thesis
        unfolding CalculateScore_def Let_def base tr const_5 by simp
    next
      case False
      with rapid ne show ?thesis
        unfolding CalculateScore_def Let_def base const_5 by simp
    qed
  next
    case not_rapid: False
    show ?thesis
    proof (cases "mode = ModeTotalGame")
      case total: True
      with assms(6)
      have b: "c \<le> (if (if t = 0 then 0 < c else 9 / 10 \<le> rat_of_int c / rat_of_int t)
                     then 138572296226784 else 2702159776422304)" by simp
      note acc = accuracy_0_9 [OF assms(1,3,4) b]
      show ?thesis
      proof (cases "if t = 0 then 0 < c else 9 / 10 \<le> rat_of_int c / rat_of_int t")
        case True
        with b have c: "c \<le> 138572296226784" by (cases "t = 0") simp_all
        with assms(1) have "- (2 ^ 63) \<le> c * 130" "c * 130 < 2 ^ 63" by simp_all
        then have "f64_to_int (Finite (of_int (c * 130))) = Some (c * 130)"
          by (rule f64_to_int_of_int)
        with total True ne mul_1_3 [OF assms(1) c] show ?thesis
          unfolding CalculateScore_def Let_def base tr const_5 acc by simp
      next
        case False
        with total ne show ?thesis
          unfolding CalculateScore_def Let_def base const_5 acc by simp
      qed
    next
      case False
      with not_rapid show ?thesis
        unfolding CalculateScore_def Let_def base by simp
    qed
  qed
qed

text \<open>The examples of the claim, which are those of the tests of package \<^verbatim>\<open>modes\<close>.\<close>

theorem CalculateScore_bounded_witness:
  "CalculateScore ModeRoundRobin 5 7 (Finite 6) = Some 500 \<and>
   CalculateScore ModeRapidFire 5 6 (Finite 3) = Some 750 \<and>
   CalculateScore ModeTotalGame 9 10 (Finite 7) = Some 1170"
proof (intro conjI)
  show "CalculateScore ModeRoundRobin 5 7 (Finite 6) = Some 500"
    using CalculateScore_bounded [of 5 7 ModeRoundRobin "Finite 6"]
    by (simp add: ModeRoundRobin_def ModeRapidFire_def ModeTotalGame_def)
  show "CalculateScore ModeRapidFire 5 6 (Finite 3) = Some 750"
    using CalculateScore_bounded [of 5 6 ModeRapidFire "Finite 3"]
    by (simp add: truncate_def)
  show "CalculateScore ModeTotalGame 9 10 (Finite 7) = Some 1170"
    using CalculateScore_bounded [of 9 10 ModeTotalGame "Finite 7"]
    by (simp add: ModeRapidFire_def ModeTotalGame_def truncate_def)
qed

text \<open>Evaluation of \<open>CalculateScore\<close> on numerals.\<close>

lemmas score_eval =
  CalculateScore_def wrap64_def float64_def truncate_def ModeRoundRobin_def ModeRapidFire_def
  ModeTotalGame_def const_5 const_1_5 const_1_3 const_0_9 f64_fast

text \<open>
  The claim as it stands, for every number of correct attempts, fails at the first
  number beyond each bound. With 92233720368547759 correct attempts the product by 100
  leaves the range of \<^verbatim>\<open>int\<close> and the score is negative. With 120095990063215 in
  rapid-fire mode, 150 times the correct attempts is no \<^verbatim>\<open>float64\<close> and the score is 2
  less. With 138572296226785 in total-game mode, all of them correct, 130 times the
  correct attempts is no \<^verbatim>\<open>float64\<close> and the score is 2 more. With 2702159776422305
  correct attempts out of 3002399751580339 in total-game mode the quotient is below 0.9
  and rounds to the \<^verbatim>\<open>float64\<close> nearest to 0.9, so the score is multiplied by 1.3 where
  the claim has 100 times the correct attempts.
\<close>

theorem CalculateScore_beyond_bounds:
  "CalculateScore ModeRoundRobin 92233720368547759 0 (Finite 6) = Some (- 9223372036854775716) \<and>
   (92233720368547759 :: int) * 100 = 9223372036854775900 \<and>
   CalculateScore ModeRapidFire 120095990063215 120095990063215 (Finite 3) =
     Some 18014398509482248 \<and>
   truncate (rat_of_int (120095990063215 * 100) * (3 / 2)) = 18014398509482250 \<and>
   CalculateScore ModeTotalGame 138572296226785 138572296226785 (Finite 7) =
     Some 18014398509482052 \<and>
   truncate (rat_of_int (138572296226785 * 100) * (13 / 10)) = 18014398509482050 \<and>
   CalculateScore ModeTotalGame 2702159776422305 3002399751580339 (Finite 7) =
     Some 351280770934899648 \<and>
   rat_of_int 2702159776422305 / rat_of_int 3002399751580339 < 9 / 10 \<and>
   (2702159776422305 :: int) * 100 = 270215977642230500"
proof (intro conjI)
  show "CalculateScore ModeRoundRobin 92233720368547759 0 (Finite 6) =
          Some (- 9223372036854775716)"
    by (simp add: CalculateScore_def wrap64_def ModeRoundRobin_def ModeRapidFire_def
        ModeTotalGame_def)
  show "CalculateScore ModeRapidFire 120095990063215 120095990063215 (Finite 3) =
          Some 18014398509482248"
    by (simp add: score_eval)
  show "CalculateScore ModeTotalGame 138572296226785 138572296226785 (Finite 7) =
          Some 18014398509482052"
    by (simp add: score_eval)
  show "CalculateScore ModeTotalGame 2702159776422305 3002399751580339 (Finite 7) =
          Some 351280770934899648"
    by (simp add: score_eval)
qed (simp_all add: truncate_def)

section \<open>Properties of ranking\<close>

lemma const_1: "round64 1 = Finite 1"
  by (simp add: f64_fast)

lemma const_0_1: "round64 (1 / 10) = Finite (3602879701896397 / 2 ^ 55)"
  by (simp add: f64_fast)

lemmas points_eval =
  CalculatePoints_def playerMultiplier_def points_spec_def GoldPoints_def SilverPoints_def
  BronzePoints_def float64_def wrap64_def truncate_def const_1 const_0_1 const_1_5 f64_fast

text \<open>The points for 3 to 32 players, computed for either way of rounding the multiplier.\<close>

lemma points_table_unfused_a: "list_all (points_row False) [3..12]"
  by (simp add: points_row_def points_eval)

lemma points_table_unfused_b: "list_all (points_row False) [13..22]"
  by (simp add: points_row_def points_eval)

lemma points_table_unfused_c: "list_all (points_row False) [23..32]"
  by (simp add: points_row_def points_eval)

lemma points_table_fused_a: "list_all (points_row True) [3..12]"
  by (simp add: points_row_def points_eval)

lemma points_table_fused_b: "list_all (points_row True) [13..22]"
  by (simp add: points_row_def points_eval)

lemma points_table_fused_c: "list_all (points_row True) [23..32]"
  by (simp add: points_row_def points_eval)

lemma points_row_upto_32:
  assumes "3 \<le> n" and "n \<le> 32"
  shows "points_row fused n"
proof -
  have a: "\<forall>x\<in>{3..12}. points_row False x \<and> points_row True x"
    using points_table_unfused_a points_table_fused_a
    unfolding list_all_iff set_upto by blast
  have b: "\<forall>x\<in>{13..22}. points_row False x \<and> points_row True x"
    using points_table_unfused_b points_table_fused_b
    unfolding list_all_iff set_upto by blast
  have c: "\<forall>x\<in>{23..32}. points_row False x \<and> points_row True x"
    using points_table_unfused_c points_table_fused_c
    unfolding list_all_iff set_upto by blast
  consider "n \<le> 12" | "13 \<le> n" "n \<le> 22" | "23 \<le> n" by linarith
  then have "points_row False n \<and> points_row True n"
  proof cases
    case 1
    with assms have "n \<in> {3..12}" by simp
    with a show ?thesis by blast
  next
    case 2
    then have "n \<in> {13..22}" by simp
    with b show ?thesis by blast
  next
    case 3
    with assms have "n \<in> {23..32}" by simp
    with c show ?thesis by blast
  qed
  then show ?thesis by (cases fused) simp_all
qed

lemma points_row_few_players:
  assumes "n \<le> 2"
  shows "points_row fused n"
  using assms
  by (simp add: points_row_def CalculatePoints_def playerMultiplier_def points_spec_def
      GoldPoints_def SilverPoints_def BronzePoints_def float64_def truncate_def const_1
      const_1_5 f64_fast)

text \<open>
  Claim C5, as amended. For every placement, every number of players up to 32 and
  either tournament flag, \<open>CalculatePoints\<close> returns the points of the specification:
  30, 15 or 5 (0 for another placement), scaled by 1 + 0.1 for each player beyond two
  and by 1.5 in a tournament, rounded to the nearest integer, halves upwards. And
  \<open>CalculateNewRating\<close> returns the rating plus the points, clamped into 0 to 1200,
  whenever that sum is in the range of \<^verbatim>\<open>int\<close>.
\<close>

theorem CalculatePoints_upto_32:
  "(playerCount \<le> 32 \<longrightarrow>
      CalculatePoints fused placement playerCount isTournament =
        Some (points_spec placement playerCount isTournament)) \<and>
   (- (2 ^ 63) \<le> currentRating + points \<and> currentRating + points < 2 ^ 63 \<longrightarrow>
      CalculateNewRating currentRating points = max 0 (min 1200 (currentRating + points)))"
proof (intro conjI impI)
  assume n: "playerCount \<le> 32"
  have row: "points_row fused playerCount"
  proof (cases "playerCount \<le> 2")
    case True
    then show ?thesis by (rule points_row_few_players)
  next
    case False
    then have "3 \<le> playerCount" by simp
    then show ?thesis using n by (rule points_row_upto_32)
  qed
  show "CalculatePoints fused placement playerCount isTournament =
          Some (points_spec placement playerCount isTournament)"
  proof (cases "placement = 1 \<or> placement = 2 \<or> placement = 3")
    case True
    with row show ?thesis
      unfolding points_row_def by (cases isTournament) auto
  next
    case False
    then show ?thesis by (simp add: CalculatePoints_def points_spec_def floor_rat_numeral)
  qed
next
  assume "- (2 ^ 63) \<le> currentRating + points \<and> currentRating + points < 2 ^ 63"
  then have "wrap64 (currentRating + points) = currentRating + points"
    by (intro wrap64_id) simp_all
  then show "CalculateNewRating currentRating points = max 0 (min 1200 (currentRating + points))"
    by (simp add: CalculateNewRating_def Let_def)
qed

text \<open>The examples of the claim and of the tests of package \<^verbatim>\<open>ranking\<close>.\<close>

theorem CalculatePoints_upto_32_witness:
  "CalculatePoints False 1 8 True = Some 72 \<and> CalculatePoints True 1 8 True = Some 72 \<and>
   CalculatePoints False 3 12 False = Some 10 \<and> CalculatePoints False 4 12 True = Some 0 \<and>
   CalculateNewRating 1190 30 = 1200 \<and> CalculateNewRating 10 (- 20) = 0 \<and>
   CalculateNewRating 1000 30 = 1030"
proof -
  have spec: "points_spec 1 8 True = 72" "points_spec 3 12 False = 10" "points_spec 4 12 True = 0"
    by (simp_all add: points_spec_def floor_rat_numeral)
  from CalculatePoints_upto_32 [of 8 False 1 True 1190 30]
    CalculatePoints_upto_32 [of 8 True 1 True 10 "- 20"]
    CalculatePoints_upto_32 [of 12 False 3 False 1000 30]
    CalculatePoints_upto_32 [of 12 False 4 True 0 0]
  show ?thesis by (simp add: spec)
qed

text \<open>
  The claim as it stands, for every number of players and every rating, fails twice.
  With 33 players and separate roundings the multiplier is the \<^verbatim>\<open>float64\<close> nearest to 4.1,
  which is below 4.1, and the second place earns 61 points where 15 times 4.1 is 61.5
  and rounds to 62. And the sum of the largest \<^verbatim>\<open>int\<close> and 1 wraps to a negative number,
  so the new rating is 0 where the clamped sum is 1200.
\<close>

theorem CalculatePoints_33_players:
  "playerMultiplier False 33 = Finite (2308094809027379 / 2 ^ 49) \<and>
   (2308094809027379 / 2 ^ 49 :: rat) < 41 / 10 \<and>
   CalculatePoints False 2 33 False = Some 61 \<and> points_spec 2 33 False = 62 \<and>
   CalculateNewRating (2 ^ 63 - 1) 1 = 0 \<and>
   max 0 (min 1200 ((2 ^ 63 - 1) + 1)) = (1200 :: int)"
  by (simp add: CalculateNewRating_def points_eval)

end
